theory Spec2Isabelle
  imports Main
begin

section \<open>The outfit and pose history controller of the try-on application\<close>

text \<open>
  The controller is the \<^verbatim>\<open>App\<close> component: nine pieces of React state, one media-query
  flag, the values derived from them, and the handlers \<^verbatim>\<open>handleModelFinalized\<close>,
  \<^verbatim>\<open>handleStartOver\<close>, \<^verbatim>\<open>handleGarmentSelect\<close>, \<^verbatim>\<open>handleRegenerateLayer\<close>,
  \<^verbatim>\<open>handleRemoveLayer\<close> and \<^verbatim>\<open>handlePoseSelect\<close>. Three of the handlers are
  \<^verbatim>\<open>async\<close>: each is modelled as the part that runs synchronously up to its first
  \<^verbatim>\<open>await\<close>, and one continuation per \<^verbatim>\<open>await\<close>, which takes the outcome of the awaited
  promise and the state as it is when the promise settles. The values a continuation reads
  from its closure (captured when the handler was called) are its arguments; what it reads
  through a functional state update (\<^verbatim>\<open>setX(prev => ...)\<close>) comes from the state it is
  applied to.

  A handler reads the state through the closure of the render that created it.
  \<^verbatim>\<open>handleStartOver\<close>, \<^verbatim>\<open>handleRegenerateLayer\<close>, \<^verbatim>\<open>handleRemoveLayer\<close> and
  \<^verbatim>\<open>handlePoseSelect\<close> are called by the click handlers of that render, with the page
  rendered up to date, so what they read is the current state. \<^verbatim>\<open>handleGarmentSelect\<close>
  is different: the wardrobe panel calls it at once for an uploaded file, but for an
  item of the wardrobe it first awaits \<^verbatim>\<open>urlToFile\<close> and then calls the handler it was
  given when the item was clicked. What that handler reads (\<^verbatim>\<open>displayImageUrl\<close>,
  \<^verbatim>\<open>isLoading\<close>, \<^verbatim>\<open>outfitHistory\<close>, \<^verbatim>\<open>currentOutfitIndex\<close>, \<^verbatim>\<open>isMobile\<close>) is the state of
  the render that created it, which may no longer be the current one. That render is
  the first argument of \<open>handleGarmentSelect\<close>; its setters act on the current state,
  the second argument.

  Indices are natural numbers: the handlers are called with indices of the rendered
  lists, and the state only ever holds 0, an index plus one, or an index minus one that
  a guard has shown to be positive.

  The Vietnamese string literals of the program are written here without their
  diacritics (the theory is ASCII); they stay pairwise distinct.
\<close>

subsection \<open>JavaScript values\<close>

text \<open>Truthiness of a value of type \<^verbatim>\<open>string | null | undefined\<close>: \<open>None\<close> stands
  for \<^verbatim>\<open>null\<close> and \<^verbatim>\<open>undefined\<close>; they and the empty string are falsy.\<close>

definition js_truthy :: "string option \<Rightarrow> bool" where
  "js_truthy x = (case x of None \<Rightarrow> False | Some v \<Rightarrow> v \<noteq> [])"

text \<open>\<^verbatim>\<open>xs[i]\<close> on an array: \<^verbatim>\<open>undefined\<close> out of range.\<close>

definition js_index :: "'a list \<Rightarrow> nat \<Rightarrow> 'a option" where
  "js_index xs i = (if i < length xs then Some (xs ! i) else None)"

text \<open>
  \<^verbatim>\<open>xs[i] = v\<close> on an array: in range it replaces, at the end it appends; further out
  JavaScript leaves holes before the new element, which a list cannot hold (\<open>None\<close>).
\<close>

definition js_assign_index :: "'a list \<Rightarrow> nat \<Rightarrow> 'a \<Rightarrow> 'a list option" where
  "js_assign_index xs i v =
    (if i < length xs then Some (xs[i := v])
     else if i = length xs then Some (xs @ [v])
     else None)"

text \<open>A value used as a property key: \<^verbatim>\<open>undefined\<close> becomes the key \<^verbatim>\<open>"undefined"\<close>.\<close>

definition prop_key :: "string option \<Rightarrow> string" where
  "prop_key k = (case k of None \<Rightarrow> ''undefined'' | Some p \<Rightarrow> p)"

text \<open>
  \<^verbatim>\<open>Record<string, string>\<close> is a plain object. Its own string keys are enumerated in
  insertion order, so the object is an association list in insertion order with
  distinct keys. The keys used here are the pose instructions and \<^verbatim>\<open>"undefined"\<close>: none
  is an array index (which would be enumerated first) or a property inherited from
  \<^verbatim>\<open>Object.prototype\<close> (which a lookup would find on an empty object).
\<close>

type_synonym js_record = "(string \<times> string) list"

text \<open>\<^verbatim>\<open>obj[key]\<close>\<close>

fun prop_get :: "js_record \<Rightarrow> string \<Rightarrow> string option" where
  "prop_get [] key = None"
| "prop_get ((k, v) # rest) key = (if k = key then Some v else prop_get rest key)"

text \<open>\<^verbatim>\<open>obj[key] = value\<close>: an existing key keeps its place, a new key goes last.\<close>

fun prop_set :: "js_record \<Rightarrow> string \<Rightarrow> string \<Rightarrow> js_record" where
  "prop_set [] key value = [(key, value)]"
| "prop_set ((k, v) # rest) key value =
     (if k = key then (k, value) # rest else (k, v) # prop_set rest key value)"

text \<open>\<^verbatim>\<open>Object.values(obj)[0]\<close>\<close>

fun first_value :: "js_record \<Rightarrow> string option" where
  "first_value [] = None"
| "first_value ((k, v) # rest) = Some v"

text \<open>\<^verbatim>\<open>Object.keys(obj)\<close>\<close>

definition js_keys :: "js_record \<Rightarrow> string list" where
  "js_keys obj = map fst obj"

subsection \<open>Data model\<close>

text \<open>\<^verbatim>\<open>WardrobeItem\<close>: the field \<^verbatim>\<open>id\<close> is \<open>id'\<close> here (\<open>id\<close> is HOL's identity).\<close>

record WardrobeItem =
  id' :: string
  name :: string
  url :: string

record OutfitLayer =
  garment :: "WardrobeItem option"
  poseImages :: js_record

text \<open>A \<^verbatim>\<open>File\<close> is opaque to the controller: it is only handed on to the gateway.\<close>

datatype File = File string

definition POSE_INSTRUCTIONS :: "string list" where
  "POSE_INSTRUCTIONS =
    [''Chup chinh dien, tay chong hong'',
     ''Hoi xoay nguoi, goc 3/4'',
     ''Chup goc nghieng'',
     ''Nhay len, chup khoanh khac'',
     ''Di bo ve phia may anh'',
     ''Dua vao tuong'']"

definition defaultWardrobe :: "WardrobeItem list" where
  "defaultWardrobe = []"

text \<open>The \<^verbatim>\<open>useState\<close> cells of \<^verbatim>\<open>App\<close>, and the \<^verbatim>\<open>useMediaQuery\<close> flag \<open>isMobile\<close>.\<close>

record AppState =
  modelImageUrl :: "string option"
  outfitHistory :: "OutfitLayer list"
  currentOutfitIndex :: nat
  isLoading :: bool
  loadingMessage :: string
  error :: "string option"
  currentPoseIndex :: nat
  isSheetCollapsed :: bool
  wardrobe :: "WardrobeItem list"
  isMobile :: bool

definition initialState :: AppState where
  "initialState =
    \<lparr>modelImageUrl = None, outfitHistory = [], currentOutfitIndex = 0, isLoading = False,
     loadingMessage = [], error = None, currentPoseIndex = 0, isSheetCollapsed = True,
     wardrobe = defaultWardrobe, isMobile = False\<rparr>"

subsection \<open>Derived values\<close>

definition activeOutfitLayers :: "AppState \<Rightarrow> OutfitLayer list" where
  "activeOutfitLayers s = take (currentOutfitIndex s + 1) (outfitHistory s)"

definition displayImageUrl :: "AppState \<Rightarrow> string option" where
  "displayImageUrl s =
    (if length (outfitHistory s) = 0 then modelImageUrl s
     else case js_index (outfitHistory s) (currentOutfitIndex s) of
       None \<Rightarrow> modelImageUrl s
     | Some currentLayer \<Rightarrow>
         (case prop_get (poseImages currentLayer)
                 (prop_key (js_index POSE_INSTRUCTIONS (currentPoseIndex s))) of
            Some shown \<Rightarrow> Some shown
          | None \<Rightarrow> first_value (poseImages currentLayer)))"

definition availablePoseKeys :: "AppState \<Rightarrow> string list" where
  "availablePoseKeys s =
    (if length (outfitHistory s) = 0 then []
     else case js_index (outfitHistory s) (currentOutfitIndex s) of
       None \<Rightarrow> []
     | Some currentLayer \<Rightarrow> js_keys (poseImages currentLayer))"

subsection \<open>The gateway, promises and suspended handlers\<close>

text \<open>The outcome of an awaited promise: rejected with an error, or fulfilled.\<close>

datatype 'a settled = Rejected string | Fulfilled 'a

text \<open>The three asynchronous calls the handlers await, with their arguments.\<close>

datatype gateway_call =
    GenerateVirtualTryOnImage string File
  | GeneratePoseVariation string "string option"
  | UrlToFile string string

text \<open>
  How the synchronous part of a handler ends: it returned (no call was made), it is
  suspended at an \<^verbatim>\<open>await\<close> (with the state it has set so far and what its continuation
  keeps in its closure), or it threw an exception nothing catches (the state is as the
  handler left it).
\<close>

datatype 'k started =
    Returned AppState
  | Awaiting AppState 'k
  | Threw AppState string

fun state_of :: "'k started \<Rightarrow> AppState" where
  "state_of (Returned s) = s"
| "state_of (Awaiting s k) = s"
| "state_of (Threw s e) = s"

text \<open>The call a started handler waits for, given the call of its closure: \<open>None\<close> when
  the handler made no call.\<close>

fun call_of :: "('k \<Rightarrow> gateway_call) \<Rightarrow> 'k started \<Rightarrow> gateway_call option" where
  "call_of c (Returned s) = None"
| "call_of c (Awaiting s k) = Some (c k)"
| "call_of c (Threw s e) = None"

text \<open>
  The closures of the suspended handlers.
  \<^item> \<open>GarmentSelectAwait currentOutfitIndex garmentInfo displayImageUrl garmentFile\<close>
  \<^item> \<open>RegenerateAwaitFile layerIndex garmentInfo baseImageUrl\<close>
  \<^item> \<open>RegenerateAwaitTryOn layerIndex garmentInfo baseImageUrl garmentFile\<close>
  \<^item> \<open>PoseSelectAwait currentOutfitIndex poseInstruction prevPoseIndex baseImageForPoseChange\<close>
\<close>

datatype garment_select_await = GarmentSelectAwait nat WardrobeItem string File

datatype regenerate_file_await = RegenerateAwaitFile nat WardrobeItem string

datatype regenerate_tryon_await = RegenerateAwaitTryOn nat WardrobeItem string File

datatype pose_select_await = PoseSelectAwait nat "string option" nat string

fun garment_select_call :: "garment_select_await \<Rightarrow> gateway_call" where
  "garment_select_call (GarmentSelectAwait i garmentInfo base garmentFile) =
     GenerateVirtualTryOnImage base garmentFile"

fun regenerate_file_call :: "regenerate_file_await \<Rightarrow> gateway_call" where
  "regenerate_file_call (RegenerateAwaitFile i garmentInfo base) =
     UrlToFile (url garmentInfo) (name garmentInfo)"

fun regenerate_tryon_call :: "regenerate_tryon_await \<Rightarrow> gateway_call" where
  "regenerate_tryon_call (RegenerateAwaitTryOn i garmentInfo base garmentFile) =
     GenerateVirtualTryOnImage base garmentFile"

fun pose_select_call :: "pose_select_await \<Rightarrow> gateway_call" where
  "pose_select_call (PoseSelectAwait i poseInstruction prevPoseIndex base) =
     GeneratePoseVariation base poseInstruction"

text \<open>
  What a continuation can do besides producing the next state: throw inside a state
  updater, where no \<^verbatim>\<open>catch\<close> of the handler is on the stack, or write past the end of
  the history array. Both need the history to have been replaced while the call was in
  flight.
\<close>

datatype fault = UncaughtTypeError | SparseHistory

subsection \<open>Handlers\<close>

text \<open>
  The setters a handler calls in one synchronous run take effect together (React
  batches them into one render), so each run is one state transformer.
\<close>

definition handleModelFinalized :: "AppState \<Rightarrow> string \<Rightarrow> AppState" where
  "handleModelFinalized s modelUrl =
    s\<lparr>modelImageUrl := Some modelUrl,
      outfitHistory :=
        [\<lparr>garment = None,
          poseImages = [(prop_key (js_index POSE_INSTRUCTIONS 0), modelUrl)]\<rparr>],
      currentOutfitIndex := 0\<rparr>"

definition handleStartOver :: "AppState \<Rightarrow> AppState" where
  "handleStartOver s =
    s\<lparr>modelImageUrl := None, outfitHistory := [], currentOutfitIndex := 0,
      isLoading := False, loadingMessage := [], error := None, currentPoseIndex := 0,
      isSheetCollapsed := False, wardrobe := defaultWardrobe\<rparr>"

text \<open>\<^verbatim>\<open>nextLayer && nextLayer.garment?.id === garmentInfo.id\<close>\<close>

definition reapplies :: "OutfitLayer option \<Rightarrow> WardrobeItem \<Rightarrow> bool" where
  "reapplies nextLayer garmentInfo =
    (case nextLayer of
       None \<Rightarrow> False
     | Some layer \<Rightarrow>
         (case garment layer of None \<Rightarrow> False | Some g \<Rightarrow> id' g = id' garmentInfo))"

text \<open>
  \<open>render\<close> is the state of the render whose closure the handler is; \<open>s\<close> is the state at
  the time of the call. The guard, the reuse check and the arguments of the call read
  \<open>render\<close>; \<^verbatim>\<open>setCurrentOutfitIndex(prev => prev + 1)\<close> and the other setters act on \<open>s\<close>.
\<close>

definition handleGarmentSelect ::
  "AppState \<Rightarrow> AppState \<Rightarrow> File \<Rightarrow> WardrobeItem \<Rightarrow> garment_select_await started" where
  "handleGarmentSelect render s garmentFile garmentInfo =
    (case displayImageUrl render of
       None \<Rightarrow> Returned s
     | Some shown \<Rightarrow>
         if shown = [] \<or> isLoading render then Returned s
         else
           let s1 = (if isMobile render then s\<lparr>isSheetCollapsed := True\<rparr> else s) in
           if reapplies (js_index (outfitHistory render) (currentOutfitIndex render + 1))
                garmentInfo
           then Returned (s1\<lparr>currentOutfitIndex := currentOutfitIndex s + 1,
                             currentPoseIndex := 0\<rparr>)
           else Awaiting
                  (s1\<lparr>error := None, isLoading := True,
                      loadingMessage := ''Dang them '' @ name garmentInfo @ ''...''\<rparr>)
                  (GarmentSelectAwait (currentOutfitIndex render) garmentInfo shown
                     garmentFile))"

text \<open>
  \<^verbatim>\<open>getFriendlyErrorMessage\<close> is imported from \<^verbatim>\<open>lib/utils\<close>, whose text is not at hand. It
  is the parameter \<open>friendly\<close> of everything that reports an error: it takes the error
  and a context string and gives the message for the error slot.
\<close>

type_synonym friendly = "string \<Rightarrow> string \<Rightarrow> string"

text \<open>The \<^verbatim>\<open>finally\<close> block shared by the three asynchronous handlers.\<close>

definition finally_idle :: "AppState \<Rightarrow> AppState" where
  "finally_idle s = s\<lparr>isLoading := False, loadingMessage := []\<rparr>"

text \<open>After \<^verbatim>\<open>await generateVirtualTryOnImage(displayImageUrl, garmentFile)\<close>.\<close>

fun handleGarmentSelect_settled ::
  "friendly \<Rightarrow> garment_select_await \<Rightarrow> string settled \<Rightarrow> AppState \<Rightarrow> AppState" where
  "handleGarmentSelect_settled friendly
      (GarmentSelectAwait capturedIndex garmentInfo shown garmentFile) outcome s =
    (case outcome of
       Fulfilled newImageUrl \<Rightarrow>
         finally_idle
           (s\<lparr>outfitHistory :=
                take (capturedIndex + 1) (outfitHistory s) @
                [\<lparr>garment = Some garmentInfo,
                  poseImages = [(prop_key (js_index POSE_INSTRUCTIONS 0), newImageUrl)]\<rparr>],
              currentOutfitIndex := currentOutfitIndex s + 1,
              currentPoseIndex := 0,
              wardrobe :=
                (case find (\<lambda>item. id' item = id' garmentInfo) (wardrobe s) of
                   Some item \<Rightarrow> wardrobe s
                 | None \<Rightarrow> wardrobe s @ [garmentInfo])\<rparr>)
     | Rejected err \<Rightarrow>
         finally_idle (s\<lparr>error := Some (friendly err ''Khong the mac trang phuc'')\<rparr>))"

text \<open>
  The \<^verbatim>\<open>try\<close> block of \<^verbatim>\<open>handleRegenerateLayer\<close> up to its first \<^verbatim>\<open>await\<close>: the garment
  and the base image, or the error thrown (which the handler's \<^verbatim>\<open>catch\<close> receives).
\<close>

definition regenerate_inputs :: "OutfitLayer list \<Rightarrow> nat \<Rightarrow> string + WardrobeItem \<times> string" where
  "regenerate_inputs history layerIndex =
    (case js_index history layerIndex of
       None \<Rightarrow> Inl ''TypeError: layerToRegenerate is undefined''
     | Some layerToRegenerate \<Rightarrow>
         (case garment layerToRegenerate of
            None \<Rightarrow> Inl ''Thong tin trang phuc hoac lop truoc do khong hop le.''
          | Some garmentInfo \<Rightarrow>
              (case (if layerIndex = 0 then None else js_index history (layerIndex - 1)) of
                 None \<Rightarrow> Inl ''Thong tin trang phuc hoac lop truoc do khong hop le.''
               | Some previousLayer \<Rightarrow>
                   (case first_value (poseImages previousLayer) of
                      None \<Rightarrow> Inl ''Khong tim thay hinh anh co so de tao lai.''
                    | Some baseImageUrl \<Rightarrow>
                        if baseImageUrl = []
                        then Inl ''Khong tim thay hinh anh co so de tao lai.''
                        else Inr (garmentInfo, baseImageUrl)))))"

definition handleRegenerateLayer ::
  "friendly \<Rightarrow> AppState \<Rightarrow> nat \<Rightarrow> regenerate_file_await started" where
  "handleRegenerateLayer friendly s layerIndex =
    (if isLoading s \<or> layerIndex < 1 \<or> layerIndex \<ge> length (outfitHistory s) then Returned s
     else
       let s1 = s\<lparr>error := None, isLoading := True,
                  loadingMessage := ''Dang tao lai thu do...''\<rparr> in
       case regenerate_inputs (outfitHistory s) layerIndex of
         Inl err \<Rightarrow>
           Returned
             (finally_idle (s1\<lparr>error := Some (friendly err ''Khong the tao lai trang phuc'')\<rparr>))
       | Inr (garmentInfo, baseImageUrl) \<Rightarrow>
           Awaiting s1 (RegenerateAwaitFile layerIndex garmentInfo baseImageUrl))"

text \<open>After \<^verbatim>\<open>await urlToFile(garmentInfo.url, garmentInfo.name)\<close>.\<close>

fun handleRegenerateLayer_file_settled ::
  "friendly \<Rightarrow> regenerate_file_await \<Rightarrow> File settled \<Rightarrow> AppState \<Rightarrow>
   regenerate_tryon_await started" where
  "handleRegenerateLayer_file_settled friendly
      (RegenerateAwaitFile layerIndex garmentInfo baseImageUrl) outcome s =
    (case outcome of
       Fulfilled garmentFile \<Rightarrow>
         Awaiting s (RegenerateAwaitTryOn layerIndex garmentInfo baseImageUrl garmentFile)
     | Rejected err \<Rightarrow>
         Returned
           (finally_idle (s\<lparr>error := Some (friendly err ''Khong the tao lai trang phuc'')\<rparr>)))"

text \<open>After \<^verbatim>\<open>await generateVirtualTryOnImage(baseImageUrl, garmentFile)\<close>.\<close>

fun handleRegenerateLayer_settled ::
  "friendly \<Rightarrow> regenerate_tryon_await \<Rightarrow> string settled \<Rightarrow> AppState \<Rightarrow> fault + AppState"
  where
  "handleRegenerateLayer_settled friendly
      (RegenerateAwaitTryOn layerIndex garmentInfo baseImageUrl garmentFile) outcome s =
    (case outcome of
       Fulfilled newImageUrl \<Rightarrow>
         (case js_assign_index (take (layerIndex + 1) (outfitHistory s)) layerIndex
                 \<lparr>garment = Some garmentInfo,
                  poseImages = [(prop_key (js_index POSE_INSTRUCTIONS 0), newImageUrl)]\<rparr> of
            None \<Rightarrow> Inl SparseHistory
          | Some newHistory \<Rightarrow>
              Inr (finally_idle
                     (s\<lparr>outfitHistory := newHistory, currentOutfitIndex := layerIndex,
                        currentPoseIndex := 0\<rparr>)))
     | Rejected err \<Rightarrow>
         Inr (finally_idle (s\<lparr>error := Some (friendly err ''Khong the tao lai trang phuc'')\<rparr>)))"

definition handleRemoveLayer :: "AppState \<Rightarrow> nat \<Rightarrow> AppState" where
  "handleRemoveLayer s layerIndex =
    (if isLoading s then s
     else if layerIndex = 0 then handleStartOver s
     else if 0 < layerIndex \<and> layerIndex < length (outfitHistory s)
     then s\<lparr>outfitHistory := take layerIndex (outfitHistory s),
            currentOutfitIndex := layerIndex - 1,
            currentPoseIndex := 0\<rparr>
     else s)"

definition handlePoseSelect :: "AppState \<Rightarrow> nat \<Rightarrow> pose_select_await started" where
  "handlePoseSelect s newIndex =
    (if isLoading s \<or> length (outfitHistory s) = 0 \<or> newIndex = currentPoseIndex s
     then Returned s
     else
       let poseInstruction = js_index POSE_INSTRUCTIONS newIndex in
       case js_index (outfitHistory s) (currentOutfitIndex s) of
         None \<Rightarrow> Threw s ''TypeError: currentLayer is undefined''
       | Some currentLayer \<Rightarrow>
           if js_truthy (prop_get (poseImages currentLayer) (prop_key poseInstruction))
           then Returned (s\<lparr>currentPoseIndex := newIndex\<rparr>)
           else
             (case first_value (poseImages currentLayer) of
                None \<Rightarrow> Returned s
              | Some baseImageForPoseChange \<Rightarrow>
                  if baseImageForPoseChange = [] then Returned s
                  else
                    Awaiting
                      (s\<lparr>error := None, isLoading := True,
                         loadingMessage := ''Dang doi dang...'', currentPoseIndex := newIndex\<rparr>)
                      (PoseSelectAwait (currentOutfitIndex s) poseInstruction
                         (currentPoseIndex s) baseImageForPoseChange)))"

text \<open>After \<^verbatim>\<open>await generatePoseVariation(baseImageForPoseChange, poseInstruction)\<close>.\<close>

fun handlePoseSelect_settled ::
  "friendly \<Rightarrow> pose_select_await \<Rightarrow> string settled \<Rightarrow> AppState \<Rightarrow> fault + AppState" where
  "handlePoseSelect_settled friendly
      (PoseSelectAwait capturedIndex poseInstruction prevPoseIndex base) outcome s =
    (case outcome of
       Fulfilled newImageUrl \<Rightarrow>
         (case js_index (outfitHistory s) capturedIndex of
            None \<Rightarrow> Inl UncaughtTypeError
          | Some updatedLayer \<Rightarrow>
              Inr (finally_idle
                     (s\<lparr>outfitHistory :=
                          (outfitHistory s)
                            [capturedIndex :=
                               updatedLayer\<lparr>poseImages :=
                                 prop_set (poseImages updatedLayer) (prop_key poseInstruction)
                                   newImageUrl\<rparr>]\<rparr>)))
     | Rejected err \<Rightarrow>
         Inr (finally_idle
                (s\<lparr>error := Some (friendly err ''Khong the doi dang''),
                   currentPoseIndex := prevPoseIndex\<rparr>)))"

subsection \<open>A handler run to its end\<close>

text \<open>
  An asynchronous handler and its continuations, with nothing else run while it waits:
  the continuation is applied to the state the handler left when it suspended.
\<close>

definition run_handleGarmentSelect ::
  "friendly \<Rightarrow> AppState \<Rightarrow> AppState \<Rightarrow> File \<Rightarrow> WardrobeItem \<Rightarrow> string settled \<Rightarrow> AppState"
  where
  "run_handleGarmentSelect friendly render s garmentFile garmentInfo outcome =
    (case handleGarmentSelect render s garmentFile garmentInfo of
       Returned s1 \<Rightarrow> s1
     | Awaiting s1 k \<Rightarrow> handleGarmentSelect_settled friendly k outcome s1
     | Threw s1 e \<Rightarrow> s1)"

definition run_handleRegenerateLayer ::
  "friendly \<Rightarrow> AppState \<Rightarrow> nat \<Rightarrow> File settled \<Rightarrow> string settled \<Rightarrow> fault + AppState" where
  "run_handleRegenerateLayer friendly s layerIndex fileOutcome outcome =
    (case handleRegenerateLayer friendly s layerIndex of
       Returned s1 \<Rightarrow> Inr s1
     | Awaiting s1 k \<Rightarrow>
         (case handleRegenerateLayer_file_settled friendly k fileOutcome s1 of
            Returned s2 \<Rightarrow> Inr s2
          | Awaiting s2 k2 \<Rightarrow> handleRegenerateLayer_settled friendly k2 outcome s2
          | Threw s2 e \<Rightarrow> Inr s2)
     | Threw s1 e \<Rightarrow> Inr s1)"

definition run_handlePoseSelect ::
  "friendly \<Rightarrow> AppState \<Rightarrow> nat \<Rightarrow> string settled \<Rightarrow> fault + AppState" where
  "run_handlePoseSelect friendly s newIndex outcome =
    (case handlePoseSelect s newIndex of
       Returned s1 \<Rightarrow> Inr s1
     | Awaiting s1 k \<Rightarrow> handlePoseSelect_settled friendly k outcome s1
     | Threw s1 e \<Rightarrow> Inr s1)"

subsection \<open>Sequences of handlers, each run to its end\<close>

text \<open>Every handler of a sequence is the one of the latest render: \<^verbatim>\<open>handleGarmentSelect\<close>
  reads the state it is called in.\<close>

datatype action =
    ModelFinalized string
  | StartOver
  | GarmentSelect File WardrobeItem "string settled"
  | RegenerateLayer nat "File settled" "string settled"
  | RemoveLayer nat
  | PoseSelect nat "string settled"
  | MediaQueryChanged bool

fun perform :: "friendly \<Rightarrow> AppState \<Rightarrow> action \<Rightarrow> fault + AppState" where
  "perform friendly s (ModelFinalized modelUrl) = Inr (handleModelFinalized s modelUrl)"
| "perform friendly s StartOver = Inr (handleStartOver s)"
| "perform friendly s (GarmentSelect garmentFile garmentInfo outcome) =
     Inr (run_handleGarmentSelect friendly s s garmentFile garmentInfo outcome)"
| "perform friendly s (RegenerateLayer layerIndex fileOutcome outcome) =
     run_handleRegenerateLayer friendly s layerIndex fileOutcome outcome"
| "perform friendly s (RemoveLayer layerIndex) = Inr (handleRemoveLayer s layerIndex)"
| "perform friendly s (PoseSelect newIndex outcome) =
     run_handlePoseSelect friendly s newIndex outcome"
| "perform friendly s (MediaQueryChanged matches) = Inr (s\<lparr>isMobile := matches\<rparr>)"

fun perform_all :: "friendly \<Rightarrow> AppState \<Rightarrow> action list \<Rightarrow> fault + AppState" where
  "perform_all friendly s [] = Inr s"
| "perform_all friendly s (a # rest) =
     (case perform friendly s a of
        Inl f \<Rightarrow> Inl f
      | Inr s1 \<Rightarrow> perform_all friendly s1 rest)"

text \<open>The root invariant: a non-empty history starts with a layer without a garment.\<close>

definition root_none :: "OutfitLayer list \<Rightarrow> bool" where
  "root_none history = (case history of [] \<Rightarrow> True | root # rest \<Rightarrow> garment root = None)"

definition root_ok :: "AppState \<Rightarrow> bool" where
  "root_ok s = root_none (outfitHistory s)"

text \<open>What keeps \<^verbatim>\<open>handleGarmentSelect\<close> from appending to an empty history: without a
  history there is no model image, hence nothing to display.\<close>

definition model_known :: "AppState \<Rightarrow> bool" where
  "model_known s = (modelImageUrl s = None \<or> outfitHistory s \<noteq> [])"

text \<open>The current position is the last index of the history (0 when it is empty): no
  layer lies after it.\<close>

definition position_last :: "AppState \<Rightarrow> bool" where
  "position_last s = (currentOutfitIndex s = length (outfitHistory s) - 1)"

text \<open>No layer lies after the current position.\<close>

definition no_redo :: "AppState \<Rightarrow> bool" where
  "no_redo s = (length (outfitHistory s) \<le> currentOutfitIndex s + 1)"

text \<open>
  The try-on call a regeneration makes once \<^verbatim>\<open>urlToFile\<close> has settled: \<open>None\<close> when the
  handler does not get that far.
\<close>

definition regenerate_try_on :: "friendly \<Rightarrow> AppState \<Rightarrow> nat \<Rightarrow> File settled \<Rightarrow> gateway_call option"
  where
  "regenerate_try_on friendly s layerIndex fileOutcome =
    (case handleRegenerateLayer friendly s layerIndex of
       Returned s1 \<Rightarrow> None
     | Awaiting s1 k \<Rightarrow>
         call_of regenerate_tryon_call
           (handleRegenerateLayer_file_settled friendly k fileOutcome s1)
     | Threw s1 e \<Rightarrow> None)"

subsection \<open>Example data\<close>

text \<open>One possible \<^verbatim>\<open>getFriendlyErrorMessage\<close>, for the examples.\<close>

definition exampleFriendly :: friendly where
  "exampleFriendly err ctx = ctx @ ''. '' @ err"

definition shirt :: WardrobeItem where
  "shirt = \<lparr>id' = ''custom-1'', name = ''shirt.png'', url = ''blob:shirt''\<rparr>"

definition jeans :: WardrobeItem where
  "jeans = \<lparr>id' = ''custom-2'', name = ''jeans.png'', url = ''blob:jeans''\<rparr>"

definition coat :: WardrobeItem where
  "coat = \<lparr>id' = ''custom-3'', name = ''coat.png'', url = ''blob:coat''\<rparr>"

definition layerA :: OutfitLayer where
  "layerA = \<lparr>garment = None,
     poseImages = [(''Chup chinh dien, tay chong hong'', ''data:a'')]\<rparr>"

definition layerB :: OutfitLayer where
  "layerB = \<lparr>garment = Some shirt,
     poseImages = [(''Chup chinh dien, tay chong hong'', ''data:b'')]\<rparr>"

definition layerC :: OutfitLayer where
  "layerC = \<lparr>garment = Some jeans,
     poseImages = [(''Chup chinh dien, tay chong hong'', ''data:c'')]\<rparr>"

text \<open>Layer B with a second pose generated.\<close>

definition layerB2 :: OutfitLayer where
  "layerB2 = \<lparr>garment = Some shirt,
     poseImages = [(''Chup chinh dien, tay chong hong'', ''data:b''),
                   (''Hoi xoay nguoi, goc 3/4'', ''data:b-turned'')]\<rparr>"

text \<open>History \<open>[A, B]\<close> at position 1.\<close>

definition stateAB :: AppState where
  "stateAB =
    \<lparr>modelImageUrl = Some ''data:a'', outfitHistory = [layerA, layerB],
     currentOutfitIndex = 1, isLoading = False, loadingMessage = [], error = None,
     currentPoseIndex = 0, isSheetCollapsed = True, wardrobe = [shirt], isMobile = False\<rparr>"

text \<open>History \<open>[A, B, C]\<close> at position 0.\<close>

definition stateABC :: AppState where
  "stateABC =
    \<lparr>modelImageUrl = Some ''data:a'', outfitHistory = [layerA, layerB, layerC],
     currentOutfitIndex = 0, isLoading = False, loadingMessage = [], error = None,
     currentPoseIndex = 0, isSheetCollapsed = True, wardrobe = [shirt, jeans],
     isMobile = False\<rparr>"

text \<open>History \<open>[A, B2]\<close> at position 1, showing the second pose.\<close>

definition statePosed :: AppState where
  "statePosed =
    \<lparr>modelImageUrl = Some ''data:a'', outfitHistory = [layerA, layerB2],
     currentOutfitIndex = 1, isLoading = False, loadingMessage = [], error = None,
     currentPoseIndex = 1, isSheetCollapsed = True, wardrobe = [shirt], isMobile = False\<rparr>"

text \<open>\<open>statePosed\<close> after pose 2, which is not cached, has been requested: the pose call
  is in flight.\<close>

definition stateBusy :: AppState where
  "stateBusy =
    \<lparr>modelImageUrl = Some ''data:a'', outfitHistory = [layerA, layerB2],
     currentOutfitIndex = 1, isLoading = True, loadingMessage = ''Dang doi dang...'',
     error = None, currentPoseIndex = 2, isSheetCollapsed = True, wardrobe = [shirt],
     isMobile = False\<rparr>"

text \<open>History \<open>[A]\<close> with the shirt in the wardrobe (layer B has been removed), and the
  same with a pose call in flight.\<close>

definition stateA :: AppState where
  "stateA =
    \<lparr>modelImageUrl = Some ''data:a'', outfitHistory = [layerA],
     currentOutfitIndex = 0, isLoading = False, loadingMessage = [], error = None,
     currentPoseIndex = 0, isSheetCollapsed = True, wardrobe = [shirt], isMobile = False\<rparr>"

definition stateABusy :: AppState where
  "stateABusy =
    \<lparr>modelImageUrl = Some ''data:a'', outfitHistory = [layerA],
     currentOutfitIndex = 0, isLoading = True, loadingMessage = ''Dang doi dang...'',
     error = None, currentPoseIndex = 1, isSheetCollapsed = True, wardrobe = [shirt],
     isMobile = False\<rparr>"

text \<open>History \<open>[A, B]\<close> at position 0 on a mobile viewport, the sheet open, an earlier
  error still shown.\<close>

definition stateMobile :: AppState where
  "stateMobile =
    \<lparr>modelImageUrl = Some ''data:a'', outfitHistory = [layerA, layerB],
     currentOutfitIndex = 0, isLoading = False, loadingMessage = [],
     error = Some ''Khong the doi dang. timeout'', currentPoseIndex = 0,
     isSheetCollapsed = False, wardrobe = [shirt], isMobile = True\<rparr>"

text \<open>
  The model is finalized, a garment is selected, \<^verbatim>\<open>handleStartOver\<close> runs while the
  try-on call is in flight, and then the call is fulfilled.
\<close>

definition startOverInFlight :: AppState where
  "startOverInFlight =
    (case handleGarmentSelect (handleModelFinalized initialState ''data:a'')
            (handleModelFinalized initialState ''data:a'') (File ''shirt.png'') shirt of
       Returned s1 \<Rightarrow> s1
     | Awaiting s1 k \<Rightarrow>
         handleGarmentSelect_settled exampleFriendly k (Fulfilled ''data:b'')
           (handleStartOver s1)
     | Threw s1 e \<Rightarrow> s1)"

section \<open>Properties\<close>

lemmas js_simps =
  js_index_def js_truthy_def prop_key_def POSE_INSTRUCTIONS_def js_assign_index_def

lemmas example_simps =
  exampleFriendly_def shirt_def jeans_def coat_def layerA_def layerB_def layerC_def
  layerB2_def stateAB_def stateABC_def statePosed_def stateBusy_def stateA_def
  stateABusy_def stateMobile_def initialState_def defaultWardrobe_def

subsection \<open>Handlers run one after the other\<close>

text \<open>
  When every handler is the one of the current render and runs to its end before the
  next one starts, no run ends in a fault, and three facts hold in every state: the
  root invariant (a non-empty history starts with a layer without a garment), the model
  image is absent whenever the history is empty, and the current position is the last
  index. The history is only ever cut after its first layer, and a layer is only
  appended when there is an image to display, that is, when the history is not empty.
  Every handler that shortens or extends the history sets the position to the new last
  index.
\<close>

lemma root_none_take_append:
  "root_none h \<Longrightarrow> h \<noteq> [] \<Longrightarrow> root_none (take (Suc n) h @ ys)"
  by (cases h) (simp_all add: root_none_def)

lemma root_none_take: "root_none h \<Longrightarrow> root_none (take n h)"
  by (cases h; cases n) (simp_all add: root_none_def)

lemma root_none_replace:
  "root_none h \<Longrightarrow> 0 < i \<Longrightarrow> root_none ((take (Suc i) h)[i := x])"
  by (cases h; cases i) (simp_all add: root_none_def)

lemma root_none_pose_update:
  "root_none h \<Longrightarrow> js_index h i = Some l \<Longrightarrow> root_none (h[i := l\<lparr>poseImages := p\<rparr>])"
  by (cases h; cases i) (auto simp: root_none_def js_index_def split: if_splits)

lemma garment_select_keeps_root:
  assumes "root_ok s" and "model_known s"
  shows "root_ok (run_handleGarmentSelect friendly s s f g outcome)
       \<and> model_known (run_handleGarmentSelect friendly s s f g outcome)"
proof (cases "handleGarmentSelect s s f g")
  case (Returned s1)
  then have "outfitHistory s1 = outfitHistory s \<and> modelImageUrl s1 = modelImageUrl s"
    by (auto simp: handleGarmentSelect_def Let_def split: option.splits if_splits)
  with assms Returned show ?thesis
    by (simp add: run_handleGarmentSelect_def root_ok_def model_known_def)
next
  case (Awaiting s1 k)
  then obtain shown where d: "displayImageUrl s = Some shown"
    and k: "k = GarmentSelectAwait (currentOutfitIndex s) g shown f"
    and h1: "outfitHistory s1 = outfitHistory s" "modelImageUrl s1 = modelImageUrl s"
    by (auto simp: handleGarmentSelect_def Let_def split: option.splits if_splits)
  from d assms(2) have ne: "outfitHistory s \<noteq> []"
    by (auto simp: displayImageUrl_def model_known_def)
  show ?thesis
  proof (cases outcome)
    case (Rejected err)
    with assms Awaiting k h1 show ?thesis
      by (simp add: run_handleGarmentSelect_def finally_idle_def root_ok_def model_known_def)
  next
    case (Fulfilled img)
    with assms(1) Awaiting k h1 ne show ?thesis
      by (simp add: run_handleGarmentSelect_def finally_idle_def root_ok_def model_known_def
          root_none_take_append)
  qed
next
  case (Threw s1 e)
  then show ?thesis
    by (auto simp: handleGarmentSelect_def Let_def split: option.splits if_splits)
qed

lemma regenerate_keeps_root:
  assumes "root_ok s" and "model_known s"
    and "run_handleRegenerateLayer friendly s i fileOutcome outcome = Inr s1"
  shows "root_ok s1 \<and> model_known s1"
proof (cases "handleRegenerateLayer friendly s i")
  case (Returned s2)
  then have "outfitHistory s2 = outfitHistory s \<and> modelImageUrl s2 = modelImageUrl s"
    by (auto simp: handleRegenerateLayer_def finally_idle_def Let_def
        split: sum.splits if_splits)
  with assms Returned show ?thesis
    by (simp add: run_handleRegenerateLayer_def root_ok_def model_known_def)
next
  case (Awaiting s2 k)
  then obtain g base where k: "k = RegenerateAwaitFile i g base"
    and h2: "outfitHistory s2 = outfitHistory s" "modelImageUrl s2 = modelImageUrl s"
    and i: "0 < i" "i < length (outfitHistory s)"
    by (auto simp: handleRegenerateLayer_def Let_def split: sum.splits if_splits)
  show ?thesis
  proof (cases fileOutcome)
    case (Rejected err)
    with assms Awaiting k h2 show ?thesis
      by (auto simp: run_handleRegenerateLayer_def finally_idle_def root_ok_def model_known_def)
  next
    case read: (Fulfilled garmentFile)
    show ?thesis
    proof (cases outcome)
      case (Rejected err)
      with assms Awaiting k h2 read show ?thesis
        by (auto simp: run_handleRegenerateLayer_def finally_idle_def root_ok_def
            model_known_def)
    next
      case (Fulfilled img)
      with assms Awaiting k h2 read i show ?thesis
        by (auto simp: run_handleRegenerateLayer_def finally_idle_def root_ok_def
            model_known_def js_assign_index_def root_none_replace)
    qed
  qed
next
  case (Threw s2 e)
  then show ?thesis
    by (auto simp: handleRegenerateLayer_def Let_def split: sum.splits if_splits)
qed

lemma remove_keeps_root:
  assumes "root_ok s" and "model_known s"
  shows "root_ok (handleRemoveLayer s i) \<and> model_known (handleRemoveLayer s i)"
proof (cases "isLoading s \<or> \<not> i < length (outfitHistory s)")
  case True
  with assms show ?thesis
    by (auto simp: handleRemoveLayer_def handleStartOver_def root_ok_def model_known_def
        root_none_def)
next
  case False
  show ?thesis
  proof (cases "i = 0")
    case True
    with False show ?thesis
      by (simp add: handleRemoveLayer_def handleStartOver_def root_ok_def model_known_def
          root_none_def)
  next
    case pos: False
    with False assms show ?thesis
      by (simp add: handleRemoveLayer_def root_ok_def model_known_def root_none_take)
  qed
qed

lemma pose_select_keeps_root:
  assumes "root_ok s" and "model_known s"
    and "run_handlePoseSelect friendly s n outcome = Inr s1"
  shows "root_ok s1 \<and> model_known s1"
proof (cases "handlePoseSelect s n")
  case (Returned s2)
  then have "outfitHistory s2 = outfitHistory s \<and> modelImageUrl s2 = modelImageUrl s"
    by (auto simp: handlePoseSelect_def Let_def split: option.splits if_splits)
  with assms Returned show ?thesis
    by (simp add: run_handlePoseSelect_def root_ok_def model_known_def)
next
  case (Awaiting s2 k)
  then obtain p base where
    k: "k = PoseSelectAwait (currentOutfitIndex s) p (currentPoseIndex s) base"
    and h2: "outfitHistory s2 = outfitHistory s" and m2: "modelImageUrl s2 = modelImageUrl s"
    by (auto simp: handlePoseSelect_def Let_def split: option.splits if_splits)
  show ?thesis
  proof (cases outcome)
    case (Rejected err)
    with assms Awaiting k h2 m2 show ?thesis
      by (auto simp: run_handlePoseSelect_def finally_idle_def root_ok_def model_known_def)
  next
    case (Fulfilled img)
    with assms Awaiting k h2 m2 show ?thesis
      by (auto simp: run_handlePoseSelect_def finally_idle_def root_ok_def model_known_def
          root_none_pose_update split: option.splits)
  qed
next
  case (Threw s2 e)
  then have "s2 = s"
    by (auto simp: handlePoseSelect_def Let_def split: option.splits if_splits)
  with assms Threw show ?thesis
    by (simp add: run_handlePoseSelect_def)
qed

lemma perform_keeps_root:
  assumes "root_ok s" and "model_known s" and "perform friendly s a = Inr s1"
  shows "root_ok s1 \<and> model_known s1"
proof (cases a)
  case (ModelFinalized u)
  with assms show ?thesis
    by (auto simp: handleModelFinalized_def root_ok_def model_known_def root_none_def)
next
  case StartOver
  with assms show ?thesis
    by (auto simp: handleStartOver_def root_ok_def model_known_def root_none_def)
next
  case (GarmentSelect f g outcome)
  with assms garment_select_keeps_root [OF assms(1,2)] show ?thesis by auto
next
  case (RegenerateLayer i fo outcome)
  with assms regenerate_keeps_root [OF assms(1,2)] show ?thesis by auto
next
  case (RemoveLayer i)
  with assms remove_keeps_root [OF assms(1,2)] show ?thesis by auto
next
  case (PoseSelect n outcome)
  with assms pose_select_keeps_root [OF assms(1,2)] show ?thesis by auto
next
  case (MediaQueryChanged m)
  with assms show ?thesis by (auto simp: root_ok_def model_known_def)
qed

lemma perform_all_keeps_root:
  "root_ok s \<Longrightarrow> model_known s \<Longrightarrow> perform_all friendly s as = Inr s1
    \<Longrightarrow> root_ok s1 \<and> model_known s1"
proof (induction as arbitrary: s)
  case Nil
  then show ?case by simp
next
  case (Cons a as)
  then show ?case
    by (auto split: sum.splits dest: perform_keeps_root)
qed



lemma run_regenerate_no_fault:
  "\<exists>s1. run_handleRegenerateLayer friendly s i fileOutcome outcome = Inr s1"
proof (cases "handleRegenerateLayer friendly s i")
  case (Returned s2)
  then show ?thesis by (simp add: run_handleRegenerateLayer_def)
next
  case (Awaiting s2 k)
  then obtain g base where k: "k = RegenerateAwaitFile i g base"
    and h2: "outfitHistory s2 = outfitHistory s" and i: "i < length (outfitHistory s)"
    by (auto simp: handleRegenerateLayer_def Let_def split: sum.splits if_splits)
  show ?thesis
    using Awaiting k h2 i
    by (cases fileOutcome; cases outcome)
      (simp_all add: run_handleRegenerateLayer_def js_assign_index_def)
next
  case (Threw s2 e)
  then show ?thesis by (simp add: run_handleRegenerateLayer_def)
qed

lemma run_pose_select_no_fault:
  "\<exists>s1. run_handlePoseSelect friendly s n outcome = Inr s1"
proof (cases "handlePoseSelect s n")
  case (Returned s2)
  then show ?thesis by (simp add: run_handlePoseSelect_def)
next
  case (Awaiting s2 k)
  then obtain p base l where
    k: "k = PoseSelectAwait (currentOutfitIndex s) p (currentPoseIndex s) base"
    and h2: "outfitHistory s2 = outfitHistory s"
    and l: "js_index (outfitHistory s) (currentOutfitIndex s) = Some l"
    by (auto simp: handlePoseSelect_def Let_def split: option.splits if_splits)
  show ?thesis
    using Awaiting k h2 l
    by (cases outcome) (simp_all add: run_handlePoseSelect_def)
next
  case (Threw s2 e)
  then show ?thesis by (simp add: run_handlePoseSelect_def)
qed

lemma perform_no_fault: "\<exists>s1. perform friendly s a = Inr s1"
  by (cases a) (simp_all add: run_regenerate_no_fault run_pose_select_no_fault)

lemma perform_all_no_fault: "\<exists>s1. perform_all friendly s as = Inr s1"
proof (induction as arbitrary: s)
  case Nil
  then show ?case by simp
next
  case (Cons a as)
  obtain s1 where "perform friendly s a = Inr s1"
    using perform_no_fault by blast
  with Cons show ?case by simp
qed

lemma garment_select_keeps_position:
  assumes "position_last s" and "model_known s"
  shows "position_last (run_handleGarmentSelect friendly s s f g outcome)"
proof (cases "outfitHistory s")
  case Nil
  with assms(2) have "displayImageUrl s = None"
    by (simp add: displayImageUrl_def model_known_def)
  then have "handleGarmentSelect s s f g = Returned s"
    by (simp add: handleGarmentSelect_def)
  with assms(1) show ?thesis by (simp add: run_handleGarmentSelect_def)
next
  case (Cons root rest)
  with assms(1) have idx: "currentOutfitIndex s = length rest"
    by (simp add: position_last_def)
  then have nr: "\<not> reapplies (js_index (outfitHistory s) (currentOutfitIndex s + 1)) g"
    using Cons by (simp add: js_index_def reapplies_def)
  show ?thesis
  proof (cases "handleGarmentSelect s s f g")
    case (Returned s1)
    with nr have "s1 = s"
      by (auto simp: handleGarmentSelect_def Let_def split: option.splits if_splits)
    with assms(1) Returned show ?thesis by (simp add: run_handleGarmentSelect_def)
  next
    case (Awaiting s1 k)
    then obtain shown where
      k: "k = GarmentSelectAwait (currentOutfitIndex s) g shown f"
      and h1: "outfitHistory s1 = outfitHistory s" "currentOutfitIndex s1 = currentOutfitIndex s"
      by (auto simp: handleGarmentSelect_def Let_def split: option.splits if_splits)
    show ?thesis
      using Awaiting k h1 idx Cons
      by (cases outcome)
        (simp_all add: run_handleGarmentSelect_def finally_idle_def position_last_def)
  next
    case (Threw s1 e)
    then show ?thesis
      by (auto simp: handleGarmentSelect_def Let_def split: option.splits if_splits)
  qed
qed

lemma regenerate_keeps_position:
  assumes "position_last s"
    and "run_handleRegenerateLayer friendly s i fileOutcome outcome = Inr s1"
  shows "position_last s1"
proof (cases "handleRegenerateLayer friendly s i")
  case (Returned s2)
  then have "outfitHistory s2 = outfitHistory s \<and> currentOutfitIndex s2 = currentOutfitIndex s"
    by (auto simp: handleRegenerateLayer_def finally_idle_def Let_def
        split: sum.splits if_splits)
  with assms Returned show ?thesis
    by (simp add: run_handleRegenerateLayer_def position_last_def)
next
  case (Awaiting s2 k)
  then obtain g base where k: "k = RegenerateAwaitFile i g base"
    and h2: "outfitHistory s2 = outfitHistory s" "currentOutfitIndex s2 = currentOutfitIndex s"
    and i: "0 < i" "i < length (outfitHistory s)"
    by (auto simp: handleRegenerateLayer_def Let_def split: sum.splits if_splits)
  from i obtain root rest where c: "outfitHistory s = root # rest"
    by (cases "outfitHistory s") auto
  from i obtain j where j: "i = Suc j" by (cases i) auto
  show ?thesis
    using assms Awaiting k h2 i c j
    by (cases fileOutcome; cases outcome)
      (auto simp: run_handleRegenerateLayer_def finally_idle_def position_last_def
        js_assign_index_def)
next
  case (Threw s2 e)
  then show ?thesis
    by (auto simp: handleRegenerateLayer_def Let_def split: sum.splits if_splits)
qed

lemma remove_keeps_position:
  assumes "position_last s"
  shows "position_last (handleRemoveLayer s i)"
proof (cases "isLoading s \<or> \<not> i < length (outfitHistory s)")
  case True
  with assms show ?thesis
    by (auto simp: handleRemoveLayer_def handleStartOver_def position_last_def)
next
  case False
  show ?thesis
  proof (cases i)
    case 0
    with False show ?thesis
      by (simp add: handleRemoveLayer_def handleStartOver_def position_last_def)
  next
    case (Suc j)
    with False obtain root rest where "outfitHistory s = root # rest"
      by (cases "outfitHistory s") auto
    with False Suc show ?thesis
      by (simp add: handleRemoveLayer_def position_last_def)
  qed
qed

lemma pose_select_keeps_position:
  assumes "position_last s"
    and "run_handlePoseSelect friendly s n outcome = Inr s1"
  shows "position_last s1"
proof (cases "handlePoseSelect s n")
  case (Returned s2)
  then have "outfitHistory s2 = outfitHistory s \<and> currentOutfitIndex s2 = currentOutfitIndex s"
    by (auto simp: handlePoseSelect_def Let_def split: option.splits if_splits)
  with assms Returned show ?thesis
    by (simp add: run_handlePoseSelect_def position_last_def)
next
  case (Awaiting s2 k)
  then obtain p base where
    k: "k = PoseSelectAwait (currentOutfitIndex s) p (currentPoseIndex s) base"
    and h2: "outfitHistory s2 = outfitHistory s" "currentOutfitIndex s2 = currentOutfitIndex s"
    by (auto simp: handlePoseSelect_def Let_def split: option.splits if_splits)
  show ?thesis
    using assms Awaiting k h2
    by (cases outcome)
      (auto simp: run_handlePoseSelect_def finally_idle_def position_last_def
        split: option.splits)
next
  case (Threw s2 e)
  then have "s2 = s"
    by (auto simp: handlePoseSelect_def Let_def split: option.splits if_splits)
  with assms Threw show ?thesis
    by (simp add: run_handlePoseSelect_def)
qed


lemma perform_keeps_position:
  assumes "position_last s" and "model_known s" and "perform friendly s a = Inr s1"
  shows "position_last s1"
proof (cases a)
  case (ModelFinalized u)
  with assms show ?thesis by (auto simp: handleModelFinalized_def position_last_def)
next
  case StartOver
  with assms show ?thesis by (auto simp: handleStartOver_def position_last_def)
next
  case (GarmentSelect f g outcome)
  with assms garment_select_keeps_position [OF assms(1,2)] show ?thesis by auto
next
  case (RegenerateLayer i fo outcome)
  with assms regenerate_keeps_position [OF assms(1)] show ?thesis by auto
next
  case (RemoveLayer i)
  with assms remove_keeps_position [OF assms(1)] show ?thesis by auto
next
  case (PoseSelect n outcome)
  with assms pose_select_keeps_position [OF assms(1)] show ?thesis by auto
next
  case (MediaQueryChanged m)
  with assms show ?thesis by (auto simp: position_last_def)
qed

lemma perform_all_keeps_position:
  "position_last s \<Longrightarrow> root_ok s \<Longrightarrow> model_known s \<Longrightarrow> perform_all friendly s as = Inr s1
    \<Longrightarrow> position_last s1"
proof (induction as arbitrary: s)
  case Nil
  then show ?case by simp
next
  case (Cons a as)
  then show ?case
    by (auto split: sum.splits dest: perform_keeps_root perform_keeps_position)
qed

lemma sequential_root_invariant:
  "perform_all friendly initialState as = Inr s \<Longrightarrow> root_ok s"
  using perform_all_keeps_root [of initialState friendly as s]
  by (simp add: root_ok_def model_known_def root_none_def initialState_def)

lemma sequential_position_last:
  "perform_all friendly initialState as = Inr s \<Longrightarrow> position_last s"
  using perform_all_keeps_position [of initialState friendly as s]
  by (simp add: root_ok_def model_known_def root_none_def position_last_def initialState_def)

lemma sequential_no_reuse_hit:
  assumes "perform_all friendly initialState as = Inr s"
  shows "\<not> reapplies (js_index (outfitHistory s) (currentOutfitIndex s + 1)) garmentInfo"
proof -
  have "currentOutfitIndex s = length (outfitHistory s) - 1"
    using sequential_position_last [OF assms] by (simp add: position_last_def)
  then have "\<not> currentOutfitIndex s + 1 < length (outfitHistory s)"
    by arith
  then have "js_index (outfitHistory s) (currentOutfitIndex s + 1) = None"
    by (simp only: js_index_def if_False)
  then show ?thesis
    by (simp add: reapplies_def)
qed

text \<open>Two of the example states, as the handlers produce them.\<close>

lemma stateAB_reached:
  "perform_all exampleFriendly initialState
     [ModelFinalized ''data:a'',
      GarmentSelect (File ''shirt.png'') shirt (Fulfilled ''data:b'')] = Inr stateAB"
  by (simp add: run_handleGarmentSelect_def handleGarmentSelect_def handleModelFinalized_def
      displayImageUrl_def reapplies_def finally_idle_def js_simps example_simps)

lemma statePosed_reached:
  "perform_all exampleFriendly initialState
     [ModelFinalized ''data:a'',
      GarmentSelect (File ''shirt.png'') shirt (Fulfilled ''data:b''),
      PoseSelect 1 (Fulfilled ''data:b-turned'')] = Inr statePosed"
  by (simp add: run_handleGarmentSelect_def handleGarmentSelect_def handleModelFinalized_def
      run_handlePoseSelect_def handlePoseSelect_def
      displayImageUrl_def reapplies_def finally_idle_def js_simps example_simps)

lemma stateBusy_reached:
  "handlePoseSelect statePosed 2 =
     Awaiting stateBusy (PoseSelectAwait 1 (Some ''Chup goc nghieng'') 1 ''data:b'')"
  by (simp add: handlePoseSelect_def js_simps example_simps)

lemma stateA_reached:
  "handleRemoveLayer stateAB 1 = stateA
   \<and> handlePoseSelect stateA 1 =
       Awaiting stateABusy (PoseSelectAwait 0 (Some ''Hoi xoay nguoi, goc 3/4'') 0 ''data:a'')"
  by (simp add: handleRemoveLayer_def handlePoseSelect_def js_simps example_simps)

subsection \<open>No layer after the current position\<close>

text \<open>
  However the handlers and their continuations are interleaved, and whichever earlier
  render a \<^verbatim>\<open>handleGarmentSelect\<close> belongs to, no layer is ever kept after the current
  position: every handler keeps \<open>no_redo\<close>, and every continuation keeps it for any
  closure, in any state it is resumed in. So the reuse check of \<^verbatim>\<open>handleGarmentSelect\<close>
  never succeeds.
\<close>

lemma initial_no_redo: "no_redo initialState"
  by (simp add: no_redo_def initialState_def)

lemma model_finalized_no_redo: "no_redo (handleModelFinalized s modelUrl)"
  by (simp add: no_redo_def handleModelFinalized_def)

lemma start_over_no_redo: "no_redo (handleStartOver s)"
  by (simp add: no_redo_def handleStartOver_def)

lemma no_redo_never_reapplies:
  assumes "no_redo render"
  shows "\<not> reapplies (js_index (outfitHistory render) (currentOutfitIndex render + 1)) g"
proof -
  from assms have "\<not> currentOutfitIndex render + 1 < length (outfitHistory render)"
    by (simp add: no_redo_def)
  then have "js_index (outfitHistory render) (currentOutfitIndex render + 1) = None"
    by (simp only: js_index_def if_False)
  then show ?thesis by (simp add: reapplies_def)
qed

lemma garment_select_no_redo:
  assumes "no_redo render" and "no_redo s"
  shows "no_redo (state_of (handleGarmentSelect render s f g))"
  using assms(2) no_redo_never_reapplies [OF assms(1), of g]
  by (simp add: handleGarmentSelect_def no_redo_def Let_def split: option.splits)

lemma garment_settled_no_redo:
  assumes "no_redo s"
  shows "no_redo (handleGarmentSelect_settled friendly k outcome s)"
  using assms
  by (cases k; cases outcome) (auto simp: no_redo_def finally_idle_def)

lemma regenerate_no_redo:
  assumes "no_redo s"
  shows "no_redo (state_of (handleRegenerateLayer friendly s i))"
  using assms
  by (auto simp: handleRegenerateLayer_def no_redo_def finally_idle_def Let_def
      split: sum.splits)

lemma regenerate_file_settled_no_redo:
  assumes "no_redo s"
  shows "no_redo (state_of (handleRegenerateLayer_file_settled friendly k outcome s))"
  using assms
  by (cases k; cases outcome) (auto simp: no_redo_def finally_idle_def)

lemma regenerate_settled_no_redo:
  assumes "no_redo s" and "handleRegenerateLayer_settled friendly k outcome s = Inr s1"
  shows "no_redo s1"
  using assms
  by (cases k; cases outcome)
    (auto simp: no_redo_def finally_idle_def js_assign_index_def
      split: option.splits if_splits)

lemma remove_no_redo:
  assumes "no_redo s"
  shows "no_redo (handleRemoveLayer s i)"
  using assms
  by (auto simp: handleRemoveLayer_def handleStartOver_def no_redo_def)

lemma pose_select_no_redo:
  assumes "no_redo s"
  shows "no_redo (state_of (handlePoseSelect s n))"
  using assms
  by (auto simp: handlePoseSelect_def no_redo_def Let_def split: option.splits)

lemma pose_settled_no_redo:
  assumes "no_redo s" and "handlePoseSelect_settled friendly k outcome s = Inr s1"
  shows "no_redo s1"
  using assms
  by (cases k; cases outcome)
    (auto simp: no_redo_def finally_idle_def split: option.splits)

subsection \<open>Removing a layer and selecting its garment again\<close>

text \<open>
  Claim C1, amended. From a history \<open>[A, B]\<close> at position 1, \<^verbatim>\<open>handleRemoveLayer 1\<close>
  leaves the history \<open>[A]\<close> at position 0: B is discarded, not kept as a redo branch.
  A garment selected next by the handler of that render (B's garment included) is
  therefore not a reuse hit: the try-on call is made with the image displayed for A, and
  when it is fulfilled the history is \<open>[A, B']\<close> at position 1, where \<open>B'\<close> is a new
  layer for that garment holding the new image.
\<close>

theorem remove_then_reselect_calls_gateway:
  assumes "outfitHistory s = [A, B]" and "currentOutfitIndex s = 1" and "\<not> isLoading s"
    and "displayImageUrl (handleRemoveLayer s 1) = Some shown" and "shown \<noteq> []"
  shows "outfitHistory (handleRemoveLayer s 1) = [A]
    \<and> currentOutfitIndex (handleRemoveLayer s 1) = 0
    \<and> call_of garment_select_call
         (handleGarmentSelect (handleRemoveLayer s 1) (handleRemoveLayer s 1) garmentFile
            garmentInfo)
        = Some (GenerateVirtualTryOnImage shown garmentFile)
    \<and> outfitHistory
         (run_handleGarmentSelect friendly (handleRemoveLayer s 1) (handleRemoveLayer s 1)
            garmentFile garmentInfo (Fulfilled newImageUrl))
        = [A, \<lparr>garment = Some garmentInfo,
               poseImages = [(prop_key (js_index POSE_INSTRUCTIONS 0), newImageUrl)]\<rparr>]
    \<and> currentOutfitIndex
         (run_handleGarmentSelect friendly (handleRemoveLayer s 1) (handleRemoveLayer s 1)
            garmentFile garmentInfo (Fulfilled newImageUrl))
        = 1"
proof -
  define r where "r = handleRemoveLayer s 1"
  have h: "outfitHistory r = [A]" and i: "currentOutfitIndex r = 0" and l: "\<not> isLoading r"
    using assms(1-3) by (simp_all add: r_def handleRemoveLayer_def)
  have d: "displayImageUrl r = Some shown"
    using assms(4) by (simp add: r_def)
  have n: "\<not> reapplies (js_index (outfitHistory r) (currentOutfitIndex r + 1)) garmentInfo"
    by (simp add: h i js_index_def reapplies_def)
  have g: "handleGarmentSelect r r garmentFile garmentInfo =
      Awaiting
        ((if isMobile r then r\<lparr>isSheetCollapsed := True\<rparr> else r)
           \<lparr>error := None, isLoading := True,
            loadingMessage := ''Dang them '' @ name garmentInfo @ ''...''\<rparr>)
        (GarmentSelectAwait 0 garmentInfo shown garmentFile)"
    using d assms(5) l n i by (simp add: handleGarmentSelect_def Let_def)
  have "outfitHistory r = [A]
    \<and> currentOutfitIndex r = 0
    \<and> call_of garment_select_call (handleGarmentSelect r r garmentFile garmentInfo)
        = Some (GenerateVirtualTryOnImage shown garmentFile)
    \<and> outfitHistory
         (run_handleGarmentSelect friendly r r garmentFile garmentInfo
            (Fulfilled newImageUrl))
        = [A, \<lparr>garment = Some garmentInfo,
               poseImages = [(prop_key (js_index POSE_INSTRUCTIONS 0), newImageUrl)]\<rparr>]
    \<and> currentOutfitIndex
         (run_handleGarmentSelect friendly r r garmentFile garmentInfo
            (Fulfilled newImageUrl))
        = 1"
    by (simp add: run_handleGarmentSelect_def g finally_idle_def h i)
  then show ?thesis by (simp only: r_def)
qed

text \<open>The amended claim at \<open>[A, B]\<close>, position 1, reselecting B's garment.\<close>

theorem remove_then_reselect_calls_gateway_witness:
  "outfitHistory (handleRemoveLayer stateAB 1) = [layerA]
    \<and> currentOutfitIndex (handleRemoveLayer stateAB 1) = 0
    \<and> call_of garment_select_call
         (handleGarmentSelect (handleRemoveLayer stateAB 1) (handleRemoveLayer stateAB 1)
            (File ''shirt.png'') shirt)
        = Some (GenerateVirtualTryOnImage ''data:a'' (File ''shirt.png''))
    \<and> outfitHistory
         (run_handleGarmentSelect exampleFriendly (handleRemoveLayer stateAB 1)
            (handleRemoveLayer stateAB 1) (File ''shirt.png'') shirt
            (Fulfilled ''data:b-again''))
        = [layerA, \<lparr>garment = Some shirt,
               poseImages = [(''Chup chinh dien, tay chong hong'', ''data:b-again'')]\<rparr>]
    \<and> currentOutfitIndex
         (run_handleGarmentSelect exampleFriendly (handleRemoveLayer stateAB 1)
            (handleRemoveLayer stateAB 1) (File ''shirt.png'') shirt
            (Fulfilled ''data:b-again''))
        = 1"
proof -
  have 1: "outfitHistory stateAB = [layerA, layerB]" by (simp add: stateAB_def)
  have 2: "currentOutfitIndex stateAB = 1" by (simp add: stateAB_def)
  have 3: "\<not> isLoading stateAB" by (simp add: stateAB_def)
  have 4: "displayImageUrl (handleRemoveLayer stateAB 1) = Some ''data:a''"
    by (simp add: handleRemoveLayer_def displayImageUrl_def js_simps example_simps)
  have 5: "''data:a'' \<noteq> []" by simp
  show ?thesis
    using remove_then_reselect_calls_gateway [OF 1 2 3 4 5,
        of "File ''shirt.png''" shirt exampleFriendly "''data:b-again''"]
    by (simp add: js_simps)
qed

text \<open>
  Claim C1 as stated fails: after \<^verbatim>\<open>handleRemoveLayer 1\<close> on \<open>[A, B]\<close> there is no layer
  at index 1 for the reuse check to find, and selecting B's garment calls the gateway
  with the history still \<open>[A]\<close>.
\<close>

theorem reapply_after_remove_counterexample:
  "outfitHistory stateAB = [layerA, layerB] \<and> currentOutfitIndex stateAB = 1
   \<and> garment layerB = Some shirt
   \<and> js_index (outfitHistory (handleRemoveLayer stateAB 1)) 1 = None
   \<and> call_of garment_select_call
        (handleGarmentSelect (handleRemoveLayer stateAB 1) (handleRemoveLayer stateAB 1)
            (File ''shirt.png'') shirt)
       = Some (GenerateVirtualTryOnImage ''data:a'' (File ''shirt.png''))
   \<and> outfitHistory
        (state_of (handleGarmentSelect (handleRemoveLayer stateAB 1) (handleRemoveLayer stateAB 1)
            (File ''shirt.png'') shirt))
       = [layerA]"
  by (simp add: handleRemoveLayer_def handleGarmentSelect_def displayImageUrl_def
      reapplies_def js_simps example_simps)

subsection \<open>The base image of a try-on\<close>

text \<open>
  What \<^verbatim>\<open>handleGarmentSelect\<close> passes to the try-on call is the \<^verbatim>\<open>displayImageUrl\<close> of
  its closure: the entry of that render's active layer for that render's pose label
  when the pose map has one, else the first entry of the pose map.
\<close>

lemma garment_select_base_is_closure_display:
  assumes "call_of garment_select_call (handleGarmentSelect render s garmentFile garmentInfo)
             = Some c"
    and "js_index (outfitHistory render) (currentOutfitIndex render) = Some layer"
  shows "map_option (\<lambda>shown. GenerateVirtualTryOnImage shown garmentFile)
           (displayImageUrl render) = Some c
     \<and> displayImageUrl render =
         (case prop_get (poseImages layer)
                 (prop_key (js_index POSE_INSTRUCTIONS (currentPoseIndex render))) of
            Some cached \<Rightarrow> Some cached
          | None \<Rightarrow> first_value (poseImages layer))"
proof -
  from assms(2) have ne: "length (outfitHistory render) \<noteq> 0"
    by (auto simp: js_index_def split: if_splits)
  from assms(1)
  have "map_option (\<lambda>shown. GenerateVirtualTryOnImage shown garmentFile)
           (displayImageUrl render) = Some c"
    by (auto simp: handleGarmentSelect_def Let_def split: option.splits if_splits)
  moreover from ne assms(2) have "displayImageUrl render =
         (case prop_get (poseImages layer)
                 (prop_key (js_index POSE_INSTRUCTIONS (currentPoseIndex render))) of
            Some cached \<Rightarrow> Some cached
          | None \<Rightarrow> first_value (poseImages layer))"
    by (simp add: displayImageUrl_def split: option.splits)
  ultimately show ?thesis by simp
qed

text \<open>
  Claim C2: the base image of the try-on call of a select-garment is the representative
  image of the active layer, a choice from its pose map that does not depend on the
  selected pose index. The code does not do that. At \<open>[A, B2]\<close>, position 1 (reached by
  finalizing the model, selecting the shirt and generating pose 1), the handler of the
  current render passes \<open>data:b-turned\<close> when pose 1 is selected and \<open>data:b\<close> when pose 0
  is selected, the active layer being the same. The representative image, the first
  entry of the pose map of B2, is \<open>data:b\<close> in both, and it is what the other two
  generating paths take: \<^verbatim>\<open>handlePoseSelect\<close> for the next pose of B2, and
  \<^verbatim>\<open>handleRegenerateLayer\<close> when the layer just created from \<open>data:b-turned\<close> (and stored
  under the default pose) is regenerated.
\<close>

theorem garment_select_base_depends_on_pose:
  "js_index (outfitHistory statePosed) (currentOutfitIndex statePosed) = Some layerB2
   \<and> first_value (poseImages layerB2) = Some ''data:b''
   \<and> call_of garment_select_call
        (handleGarmentSelect statePosed statePosed (File ''jeans.png'') jeans)
     = Some (GenerateVirtualTryOnImage ''data:b-turned'' (File ''jeans.png''))
   \<and> call_of garment_select_call
        (handleGarmentSelect (statePosed\<lparr>currentPoseIndex := 0\<rparr>)
           (statePosed\<lparr>currentPoseIndex := 0\<rparr>) (File ''jeans.png'') jeans)
     = Some (GenerateVirtualTryOnImage ''data:b'' (File ''jeans.png''))
   \<and> call_of pose_select_call (handlePoseSelect statePosed 2)
     = Some (GeneratePoseVariation ''data:b'' (Some ''Chup goc nghieng''))
   \<and> outfitHistory
        (run_handleGarmentSelect exampleFriendly statePosed statePosed (File ''jeans.png'')
           jeans (Fulfilled ''data:c''))
     = [layerA, layerB2, layerC]
   \<and> regenerate_try_on exampleFriendly
        (run_handleGarmentSelect exampleFriendly statePosed statePosed (File ''jeans.png'')
           jeans (Fulfilled ''data:c''))
        2 (Fulfilled (File ''jeans.png''))
     = Some (GenerateVirtualTryOnImage ''data:b'' (File ''jeans.png''))"
  by (simp add: handleGarmentSelect_def run_handleGarmentSelect_def displayImageUrl_def
      reapplies_def handlePoseSelect_def regenerate_try_on_def handleRegenerateLayer_def
      regenerate_inputs_def finally_idle_def js_simps example_simps)

subsection \<open>Requests while busy\<close>

text \<open>
  Claim C3, amended. While \<open>isLoading\<close> is true, regenerate layer, remove layer and
  select pose are ignored: they leave the state as it is and make no call, the
  selection of an already cached pose included (\<^verbatim>\<open>handlePoseSelect\<close> tests \<open>isLoading\<close>
  before it looks at the pose map). Select garment is ignored whenever \<open>isLoading\<close> is
  true in the render its handler belongs to. Selecting a cached pose other than the
  current one takes effect at once, with no call and no busy transition, when
  \<open>isLoading\<close> is false.
\<close>

theorem busy_ignores_every_transition:
  "(isLoading s \<longrightarrow>
      handleRegenerateLayer friendly s i = Returned s
    \<and> handleRemoveLayer s i = s
    \<and> handlePoseSelect s n = Returned s)
   \<and> (isLoading render \<longrightarrow> handleGarmentSelect render s garmentFile garmentInfo = Returned s)
   \<and> (\<not> isLoading t
      \<and> n \<noteq> currentPoseIndex t
      \<and> js_index (outfitHistory t) (currentOutfitIndex t) = Some layer
      \<and> js_truthy (prop_get (poseImages layer) (prop_key (js_index POSE_INSTRUCTIONS n)))
      \<longrightarrow> handlePoseSelect t n = Returned (t\<lparr>currentPoseIndex := n\<rparr>))"
proof (intro conjI impI)
  assume "isLoading render"
  then show "handleGarmentSelect render s garmentFile garmentInfo = Returned s"
    by (simp add: handleGarmentSelect_def split: option.splits)
next
  assume "isLoading s"
  then show "handleRegenerateLayer friendly s i = Returned s"
    by (simp add: handleRegenerateLayer_def)
next
  assume "isLoading s"
  then show "handleRemoveLayer s i = s"
    by (simp add: handleRemoveLayer_def)
next
  assume "isLoading s"
  then show "handlePoseSelect s n = Returned s"
    by (simp add: handlePoseSelect_def)
next
  assume a: "\<not> isLoading t
      \<and> n \<noteq> currentPoseIndex t
      \<and> js_index (outfitHistory t) (currentOutfitIndex t) = Some layer
      \<and> js_truthy (prop_get (poseImages layer) (prop_key (js_index POSE_INSTRUCTIONS n)))"
  then have "length (outfitHistory t) \<noteq> 0"
    by (auto simp: js_index_def split: if_splits)
  with a show "handlePoseSelect t n = Returned (t\<lparr>currentPoseIndex := n\<rparr>)"
    by (simp add: handlePoseSelect_def Let_def)
qed

text \<open>
  The amended claim at \<open>[A, B2]\<close>: with the pose call in flight the four requests are
  ignored (select garment by the handler of the busy render); idle, selecting the
  cached pose 0 from pose 1 only moves the selector.
\<close>

theorem busy_ignores_every_transition_witness:
  "isLoading stateBusy
   \<and> handleRegenerateLayer exampleFriendly stateBusy 1 = Returned stateBusy
   \<and> handleRemoveLayer stateBusy 1 = stateBusy
   \<and> handlePoseSelect stateBusy 0 = Returned stateBusy
   \<and> handleGarmentSelect stateBusy stateBusy (File ''jeans.png'') jeans = Returned stateBusy
   \<and> \<not> isLoading statePosed
   \<and> handlePoseSelect statePosed 0 = Returned (statePosed\<lparr>currentPoseIndex := 0\<rparr>)"
proof -
  have 1: "isLoading stateBusy" by (simp add: stateBusy_def)
  have 2: "\<not> isLoading statePosed \<and> 0 \<noteq> currentPoseIndex statePosed
      \<and> js_index (outfitHistory statePosed) (currentOutfitIndex statePosed) = Some layerB2
      \<and> js_truthy (prop_get (poseImages layerB2) (prop_key (js_index POSE_INSTRUCTIONS 0)))"
    by (simp add: js_simps example_simps)
  show ?thesis
    using busy_ignores_every_transition
      [where s = stateBusy and render = stateBusy and garmentFile = "File ''jeans.png''"
        and garmentInfo = jeans and friendly = exampleFriendly and i = 1 and n = 0
        and t = statePosed and layer = layerB2]
      1 2
    by blast
qed

text \<open>
  Claim C3 as stated fails: the pose call for pose 2 is in flight (\<open>stateBusy\<close>, which
  \<open>stateBusy_reached\<close> shows the handlers produce), pose 0 is cached on the active layer
  and differs from the selected pose 2, yet \<^verbatim>\<open>handlePoseSelect 0\<close> returns with the state
  unchanged and the selector still 2.
\<close>

theorem busy_cached_pose_select_ignored:
  "isLoading stateBusy
   \<and> js_index (outfitHistory stateBusy) (currentOutfitIndex stateBusy) = Some layerB2
   \<and> prop_get (poseImages layerB2) (prop_key (js_index POSE_INSTRUCTIONS 0)) = Some ''data:b''
   \<and> currentPoseIndex stateBusy = 2
   \<and> handlePoseSelect stateBusy 0 = Returned stateBusy
   \<and> currentPoseIndex (state_of (handlePoseSelect stateBusy 0)) = 2"
  by (simp add: handlePoseSelect_def js_simps example_simps)

text \<open>
  What the amended claim leaves open: a select-garment whose handler belongs to an
  earlier, idle render passes the guard although a call is in flight. With \<open>[A]\<close> on
  display and the shirt in the wardrobe, the shirt is clicked (the panel awaits
  \<^verbatim>\<open>urlToFile\<close>), the next pose is requested (the pose call is made, \<open>stateABusy\<close>), and
  then the panel calls the handler it was given at the click: a second call is made
  while the first is in flight.
\<close>

lemma stale_garment_select_passes_busy_guard:
  "isLoading stateABusy
   \<and> handleGarmentSelect stateA stateABusy (File ''shirt.png'') shirt =
       Awaiting (stateABusy\<lparr>loadingMessage := ''Dang them shirt.png...''\<rparr>)
         (GarmentSelectAwait 0 shirt ''data:a'' (File ''shirt.png''))"
  by (simp add: handleGarmentSelect_def displayImageUrl_def reapplies_def js_simps
      example_simps)

subsection \<open>A failed pose generation\<close>

text \<open>
  Claim C4. A pose is selected that the active layer has no image for, so the pose call
  is made with the selector already moved to the target. When the call is rejected, the
  continuation puts the selector back to its value before the attempt and sets the error
  message in the same step, and leaves the history (hence every \<open>poseImages\<close> map) as it
  was: the state after the failure is the state before the attempt with the error slot
  filled and the loading message cleared. The same holds of the continuation in whatever
  state \<open>t\<close> it is resumed.
\<close>

theorem pose_rollback_with_error:
  assumes "\<not> isLoading s" and "n \<noteq> currentPoseIndex s"
    and "js_index (outfitHistory s) (currentOutfitIndex s) = Some layer"
    and "\<not> js_truthy (prop_get (poseImages layer) (prop_key (js_index POSE_INSTRUCTIONS n)))"
    and "first_value (poseImages layer) = Some base" and "base \<noteq> []"
  shows "handlePoseSelect s n =
        Awaiting
          (s\<lparr>error := None, isLoading := True, loadingMessage := ''Dang doi dang...'',
             currentPoseIndex := n\<rparr>)
          (PoseSelectAwait (currentOutfitIndex s) (js_index POSE_INSTRUCTIONS n)
             (currentPoseIndex s) base)
    \<and> run_handlePoseSelect friendly s n (Rejected err) =
        Inr (s\<lparr>error := Some (friendly err ''Khong the doi dang''), loadingMessage := []\<rparr>)
    \<and> handlePoseSelect_settled friendly
         (PoseSelectAwait (currentOutfitIndex s) (js_index POSE_INSTRUCTIONS n)
            (currentPoseIndex s) base) (Rejected err) t =
        Inr (t\<lparr>error := Some (friendly err ''Khong the doi dang''),
               currentPoseIndex := currentPoseIndex s, isLoading := False,
               loadingMessage := []\<rparr>)"
proof -
  from assms(3) have ne: "length (outfitHistory s) \<noteq> 0"
    by (auto simp: js_index_def split: if_splits)
  have start: "handlePoseSelect s n =
        Awaiting
          (s\<lparr>error := None, isLoading := True, loadingMessage := ''Dang doi dang...'',
             currentPoseIndex := n\<rparr>)
          (PoseSelectAwait (currentOutfitIndex s) (js_index POSE_INSTRUCTIONS n)
             (currentPoseIndex s) base)"
    using assms ne by (simp add: handlePoseSelect_def Let_def)
  have "s\<lparr>error := Some (friendly err ''Khong the doi dang''), currentPoseIndex := currentPoseIndex s,
          isLoading := False, loadingMessage := []\<rparr>
      = s\<lparr>error := Some (friendly err ''Khong the doi dang''), loadingMessage := []\<rparr>"
    using assms(1) by (intro AppState.equality) simp_all
  then have run: "run_handlePoseSelect friendly s n (Rejected err) =
        Inr (s\<lparr>error := Some (friendly err ''Khong the doi dang''), loadingMessage := []\<rparr>)"
    by (simp add: run_handlePoseSelect_def start finally_idle_def)
  show ?thesis
    using start run by (simp add: finally_idle_def)
qed

text \<open>Claim C4 at \<open>[A, B]\<close>, position 1, pose 0 selected: pose 1 is requested and fails.\<close>

theorem pose_rollback_with_error_witness:
  "run_handlePoseSelect exampleFriendly stateAB 1 (Rejected ''timeout'') =
      Inr (stateAB\<lparr>error := Some ''Khong the doi dang. timeout''\<rparr>)
   \<and> call_of pose_select_call (handlePoseSelect stateAB 1) =
      Some (GeneratePoseVariation ''data:b'' (Some ''Hoi xoay nguoi, goc 3/4''))
   \<and> currentPoseIndex (state_of (handlePoseSelect stateAB 1)) = 1"
proof -
  have 1: "\<not> isLoading stateAB" by (simp add: stateAB_def)
  have 2: "1 \<noteq> currentPoseIndex stateAB" by (simp add: stateAB_def)
  have 3: "js_index (outfitHistory stateAB) (currentOutfitIndex stateAB) = Some layerB"
    by (simp add: js_simps stateAB_def)
  have 4: "\<not> js_truthy (prop_get (poseImages layerB) (prop_key (js_index POSE_INSTRUCTIONS 1)))"
    by (simp add: js_simps layerB_def)
  have 5: "first_value (poseImages layerB) = Some ''data:b''" by (simp add: layerB_def)
  have 6: "''data:b'' \<noteq> []" by simp
  have 7: "stateAB\<lparr>loadingMessage := []\<rparr> = stateAB" by (simp add: stateAB_def)
  show ?thesis
    using pose_rollback_with_error [OF 1 2 3 4 5 6, of exampleFriendly "''timeout''" stateAB]
    by (simp add: js_simps exampleFriendly_def stateAB_def)
qed

subsection \<open>The error slot\<close>

text \<open>
  Claim C5, amended. The error slot holds at most one message (it is one optional
  string). A transition that enters Busy clears it before its call: select garment on
  the path that generates (whichever render its handler belongs to), regenerate layer, and select pose for a pose not yet cached;
  a regeneration that fails before its first call replaces it by the new message.
  Remove-layer at index 0 clears it with the full reset. The transitions that make no
  call leave the slot as it was: remove-layer at an index of 1 or more, the select-garment
  reuse hit, and the selection of a cached pose; so does every request that is ignored.
\<close>

theorem error_slot_after_transition:
  "(case handleGarmentSelect render s garmentFile garmentInfo of
      Returned s1 \<Rightarrow> error s1 = error s
    | Awaiting s1 k \<Rightarrow> error s1 = None
    | Threw s1 e \<Rightarrow> error s1 = error s)
 \<and> (case handleRegenerateLayer friendly s i of
      Returned s1 \<Rightarrow>
        if isLoading s \<or> i < 1 \<or> length (outfitHistory s) \<le> i then error s1 = error s
        else \<exists>e. error s1 = Some (friendly e ''Khong the tao lai trang phuc'')
    | Awaiting s1 k \<Rightarrow> error s1 = None
    | Threw s1 e \<Rightarrow> error s1 = error s)
 \<and> (case handlePoseSelect s n of
      Returned s1 \<Rightarrow> error s1 = error s
    | Awaiting s1 k \<Rightarrow> error s1 = None
    | Threw s1 e \<Rightarrow> error s1 = error s)
 \<and> error (handleRemoveLayer s i) = (if isLoading s \<or> 0 < i then error s else None)"
proof (intro conjI)
  show "case handleGarmentSelect render s garmentFile garmentInfo of
      Returned s1 \<Rightarrow> error s1 = error s
    | Awaiting s1 k \<Rightarrow> error s1 = None
    | Threw s1 e \<Rightarrow> error s1 = error s"
    by (simp add: handleGarmentSelect_def Let_def split: option.splits)
next
  show "case handleRegenerateLayer friendly s i of
      Returned s1 \<Rightarrow>
        if isLoading s \<or> i < 1 \<or> length (outfitHistory s) \<le> i then error s1 = error s
        else \<exists>e. error s1 = Some (friendly e ''Khong the tao lai trang phuc'')
    | Awaiting s1 k \<Rightarrow> error s1 = None
    | Threw s1 e \<Rightarrow> error s1 = error s"
    by (auto simp: handleRegenerateLayer_def finally_idle_def Let_def split: sum.splits)
next
  show "case handlePoseSelect s n of
      Returned s1 \<Rightarrow> error s1 = error s
    | Awaiting s1 k \<Rightarrow> error s1 = None
    | Threw s1 e \<Rightarrow> error s1 = error s"
    by (simp add: handlePoseSelect_def Let_def split: option.splits)
next
  show "error (handleRemoveLayer s i) = (if isLoading s \<or> 0 < i then error s else None)"
    by (simp add: handleRemoveLayer_def handleStartOver_def)
qed

text \<open>
  The amended claim with an error on display: a new garment clears it, the reuse hit,
  the cached pose and remove-layer 1 keep it, remove-layer 0 clears it. (The handler
  of select garment is the one of the current render here; the theorem holds for any.)
\<close>

theorem error_slot_after_transition_witness:
  "error stateMobile = Some ''Khong the doi dang. timeout''
   \<and> error (state_of (handleGarmentSelect stateMobile stateMobile (File ''coat.png'') coat)) = None
   \<and> error (state_of (handleGarmentSelect stateMobile stateMobile (File ''shirt.png'') shirt))
       = Some ''Khong the doi dang. timeout''
   \<and> error (handleRemoveLayer stateMobile 1) = Some ''Khong the doi dang. timeout''
   \<and> error (handleRemoveLayer stateMobile 0) = None"
proof -
  have 1: "handleGarmentSelect stateMobile stateMobile (File ''coat.png'') coat =
      Awaiting
        (stateMobile\<lparr>isSheetCollapsed := True, error := None, isLoading := True,
           loadingMessage := ''Dang them coat.png...''\<rparr>)
        (GarmentSelectAwait 0 coat ''data:a'' (File ''coat.png''))"
    by (simp add: handleGarmentSelect_def displayImageUrl_def reapplies_def js_simps
        example_simps)
  have 2: "handleGarmentSelect stateMobile stateMobile (File ''shirt.png'') shirt =
      Returned
        (stateMobile\<lparr>isSheetCollapsed := True, currentOutfitIndex := 1,
           currentPoseIndex := 0\<rparr>)"
    by (simp add: handleGarmentSelect_def displayImageUrl_def reapplies_def js_simps
        example_simps)
  have 3: "error stateMobile = Some ''Khong the doi dang. timeout''" "\<not> isLoading stateMobile"
    by (simp_all add: stateMobile_def)
  show ?thesis
    using
      error_slot_after_transition [where s = stateMobile and render = stateMobile and garmentFile = "File ''coat.png''"
        and garmentInfo = coat and friendly = exampleFriendly and i = 1 and n = 0]
      error_slot_after_transition [where s = stateMobile and render = stateMobile and garmentFile = "File ''shirt.png''"
        and garmentInfo = shirt and friendly = exampleFriendly and i = 0 and n = 0]
    unfolding 1 2
    by (simp add: 3)
qed

text \<open>
  Claim C5 as stated fails: \<^verbatim>\<open>handleRemoveLayer 1\<close> passes its guards and removes layer B,
  and the message in the error slot is still there afterwards.
\<close>

theorem remove_layer_keeps_error:
  "error (stateAB\<lparr>error := Some ''Khong the doi dang. timeout''\<rparr>)
     = Some ''Khong the doi dang. timeout''
   \<and> outfitHistory (handleRemoveLayer (stateAB\<lparr>error := Some ''Khong the doi dang. timeout''\<rparr>) 1)
     = [layerA]
   \<and> error (handleRemoveLayer (stateAB\<lparr>error := Some ''Khong the doi dang. timeout''\<rparr>) 1)
     = Some ''Khong the doi dang. timeout''"
  by (simp add: handleRemoveLayer_def stateAB_def)

subsection \<open>Appending a layer\<close>

text \<open>
  Claim C6. With the current position before the last index, a select-garment (by the
  handler of the current render) that is not a reuse hit calls the gateway, and when the
  call is fulfilled the history is its prefix up to and including the current position
  followed by the new layer; the position moves on by one, to the new last index. The
  layers that were after the current position are gone.
\<close>

theorem truncation_on_append:
  assumes "currentOutfitIndex s + 1 < length (outfitHistory s)"
    and "displayImageUrl s = Some shown" and "shown \<noteq> []" and "\<not> isLoading s"
    and "\<not> reapplies (js_index (outfitHistory s) (currentOutfitIndex s + 1)) garmentInfo"
  shows "call_of garment_select_call (handleGarmentSelect s s garmentFile garmentInfo)
        = Some (GenerateVirtualTryOnImage shown garmentFile)
    \<and> outfitHistory
         (run_handleGarmentSelect friendly s s garmentFile garmentInfo (Fulfilled newImageUrl))
        = take (currentOutfitIndex s + 1) (outfitHistory s) @
          [\<lparr>garment = Some garmentInfo,
            poseImages = [(prop_key (js_index POSE_INSTRUCTIONS 0), newImageUrl)]\<rparr>]
    \<and> currentOutfitIndex
         (run_handleGarmentSelect friendly s s garmentFile garmentInfo (Fulfilled newImageUrl))
        = currentOutfitIndex s + 1
    \<and> length (outfitHistory
         (run_handleGarmentSelect friendly s s garmentFile garmentInfo (Fulfilled newImageUrl)))
        = currentOutfitIndex s + 2"
  using assms
  by (simp add: run_handleGarmentSelect_def handleGarmentSelect_def finally_idle_def Let_def)

text \<open>Claim C6 at \<open>[A, B, C]\<close>, position 0: appending D gives \<open>[A, D]\<close> at position 1.\<close>

theorem truncation_on_append_witness:
  "outfitHistory stateABC = [layerA, layerB, layerC] \<and> currentOutfitIndex stateABC = 0
   \<and> call_of garment_select_call (handleGarmentSelect stateABC stateABC (File ''coat.png'') coat)
        = Some (GenerateVirtualTryOnImage ''data:a'' (File ''coat.png''))
   \<and> outfitHistory
        (run_handleGarmentSelect exampleFriendly stateABC stateABC (File ''coat.png'') coat
           (Fulfilled ''data:d''))
       = [layerA, \<lparr>garment = Some coat,
                   poseImages = [(''Chup chinh dien, tay chong hong'', ''data:d'')]\<rparr>]
   \<and> currentOutfitIndex
        (run_handleGarmentSelect exampleFriendly stateABC stateABC (File ''coat.png'') coat
           (Fulfilled ''data:d''))
       = 1"
proof -
  have 1: "currentOutfitIndex stateABC + 1 < length (outfitHistory stateABC)"
    by (simp add: stateABC_def)
  have 2: "displayImageUrl stateABC = Some ''data:a''"
    by (simp add: displayImageUrl_def js_simps example_simps)
  have 3: "''data:a'' \<noteq> []" by simp
  have 4: "\<not> isLoading stateABC" by (simp add: stateABC_def)
  have 5: "\<not> reapplies (js_index (outfitHistory stateABC) (currentOutfitIndex stateABC + 1)) coat"
    by (simp add: reapplies_def js_simps example_simps)
  have 6: "outfitHistory stateABC = [layerA, layerB, layerC]" "currentOutfitIndex stateABC = 0"
    by (simp_all add: stateABC_def)
  show ?thesis
    using truncation_on_append [OF 1 2 3 4 5, of "File ''coat.png''" exampleFriendly "''data:d''"]
    by (simp add: 6 js_simps)
qed

subsection \<open>The base image of a regeneration\<close>

text \<open>
  Claim C7. The try-on call of a regeneration does not depend on the selected pose
  index: two runs from states that differ only in \<open>currentPoseIndex\<close> make the same call
  (or both make none). For a valid layer index \<open>i\<close> of 1 or more whose layer has a garment,
  the base image of that call is \<^verbatim>\<open>Object.values(previousLayer.poseImages)[0]\<close>, the
  first entry of the pose map of layer \<open>i - 1\<close>, whichever pose is selected.
\<close>

theorem regenerate_base_ignores_pose_index:
  assumes "\<not> isLoading s" and "1 \<le> i" and "i < length (outfitHistory s)"
    and "garment (outfitHistory s ! i) = Some garmentInfo"
    and "first_value (poseImages (outfitHistory s ! (i - 1))) = Some base" and "base \<noteq> []"
  shows "regenerate_try_on friendly (s\<lparr>currentPoseIndex := p\<rparr>) i (Fulfilled garmentFile)
           = Some (GenerateVirtualTryOnImage base garmentFile)
    \<and> regenerate_try_on friendly (s\<lparr>currentPoseIndex := p\<rparr>) j fileOutcome
           = regenerate_try_on friendly (s\<lparr>currentPoseIndex := q\<rparr>) j fileOutcome"
proof -
  have a: "regenerate_try_on friendly (s\<lparr>currentPoseIndex := p\<rparr>) i (Fulfilled garmentFile)
           = Some (GenerateVirtualTryOnImage base garmentFile)"
    using assms
    by (simp add: regenerate_try_on_def handleRegenerateLayer_def regenerate_inputs_def
        js_index_def Let_def)
  have b: "regenerate_try_on friendly (s\<lparr>currentPoseIndex := x\<rparr>) j fileOutcome =
      regenerate_try_on friendly s j fileOutcome" for x
    by (cases fileOutcome)
      (auto simp: regenerate_try_on_def handleRegenerateLayer_def Let_def split: sum.splits)
  show ?thesis
    using a b [of p] b [of q] by simp
qed

text \<open>
  Claim C7 at \<open>[A, B2]\<close>, regenerating layer 1: the base is A's image \<open>data:a\<close> with pose 0
  as with pose 1 selected.
\<close>

theorem regenerate_base_ignores_pose_index_witness:
  "regenerate_try_on exampleFriendly (statePosed\<lparr>currentPoseIndex := 0\<rparr>) 1
       (Fulfilled (File ''shirt.png''))
     = Some (GenerateVirtualTryOnImage ''data:a'' (File ''shirt.png''))
   \<and> regenerate_try_on exampleFriendly (statePosed\<lparr>currentPoseIndex := 1\<rparr>) 1
       (Fulfilled (File ''shirt.png''))
     = Some (GenerateVirtualTryOnImage ''data:a'' (File ''shirt.png''))"
proof -
  have 1: "\<not> isLoading statePosed" by (simp add: statePosed_def)
  have 2: "(1::nat) \<le> 1" by simp
  have 3: "1 < length (outfitHistory statePosed)" by (simp add: statePosed_def)
  have 4: "garment (outfitHistory statePosed ! 1) = Some shirt"
    by (simp add: statePosed_def layerB2_def)
  have 5: "first_value (poseImages (outfitHistory statePosed ! (1 - 1))) = Some ''data:a''"
    by (simp add: statePosed_def layerA_def)
  have 6: "''data:a'' \<noteq> []" by simp
  show ?thesis
    using regenerate_base_ignores_pose_index [OF 1 2 3 4 5 6, of exampleFriendly 0 "File ''shirt.png''"]
      regenerate_base_ignores_pose_index [OF 1 2 3 4 5 6, of exampleFriendly 1 "File ''shirt.png''"]
    by simp
qed

subsection \<open>The reuse hit\<close>

text \<open>
  Claim C9. On a select-garment reuse hit (the request passes the guard, and the layer
  after the current position exists with the requested garment's id) no call is made,
  and the history, the wardrobe, the busy flag and the error message are left as they
  were: a message on display stays. Of the controller's state only the current
  position, which goes up by one, and the pose selector, which is reset to 0, change;
  the model image and the loading message stay as well. The one other assignment of
  this path is to the layout of the page: on a mobile viewport the sheet is collapsed.
  The guard and the reuse check read the render the handler belongs to, the setters act
  on the current state; for the handler of the current render the two are the same.
\<close>

theorem reuse_hit_frame:
  assumes "displayImageUrl render = Some shown" and "shown \<noteq> []" and "\<not> isLoading render"
    and "js_index (outfitHistory render) (currentOutfitIndex render + 1) = Some nextLayer"
    and "garment nextLayer = Some g" and "id' g = id' garmentInfo"
  shows "handleGarmentSelect render s garmentFile garmentInfo =
      Returned (s\<lparr>currentOutfitIndex := currentOutfitIndex s + 1, currentPoseIndex := 0,
                  isSheetCollapsed := isMobile render \<or> isSheetCollapsed s\<rparr>)
    \<and> call_of garment_select_call (handleGarmentSelect render s garmentFile garmentInfo)
        = None
    \<and> outfitHistory (state_of (handleGarmentSelect render s garmentFile garmentInfo))
        = outfitHistory s
    \<and> wardrobe (state_of (handleGarmentSelect render s garmentFile garmentInfo))
        = wardrobe s
    \<and> isLoading (state_of (handleGarmentSelect render s garmentFile garmentInfo))
        = isLoading s
    \<and> error (state_of (handleGarmentSelect render s garmentFile garmentInfo)) = error s
    \<and> currentOutfitIndex (state_of (handleGarmentSelect render s garmentFile garmentInfo))
        = currentOutfitIndex s + 1
    \<and> currentPoseIndex (state_of (handleGarmentSelect render s garmentFile garmentInfo))
        = 0"
proof -
  have "reapplies (js_index (outfitHistory render) (currentOutfitIndex render + 1)) garmentInfo"
    using assms(4-6) by (simp add: reapplies_def)
  moreover have "\<not> isMobile render \<Longrightarrow>
      s\<lparr>currentOutfitIndex := Suc (currentOutfitIndex s), currentPoseIndex := 0\<rparr> =
      s\<lparr>currentOutfitIndex := Suc (currentOutfitIndex s), currentPoseIndex := 0,
        isSheetCollapsed := isSheetCollapsed s\<rparr>"
    by (intro AppState.equality) simp_all
  ultimately have "handleGarmentSelect render s garmentFile garmentInfo =
      Returned (s\<lparr>currentOutfitIndex := currentOutfitIndex s + 1, currentPoseIndex := 0,
                  isSheetCollapsed := isMobile render \<or> isSheetCollapsed s\<rparr>)"
    using assms(1-3) by (simp add: handleGarmentSelect_def Let_def)
  then show ?thesis by simp
qed

text \<open>
  Claim C9 at \<open>[A, B]\<close>, position 0, with an error on display: selecting B's garment
  again moves to position 1 and pose 0 without a call, and the error, the history and
  the wardrobe are as before.
\<close>

theorem reuse_hit_frame_witness:
  "handleGarmentSelect stateMobile stateMobile (File ''shirt.png'') shirt =
      Returned (stateMobile\<lparr>currentOutfitIndex := 1, currentPoseIndex := 0,
                  isSheetCollapsed := True\<rparr>)
   \<and> error stateMobile = Some ''Khong the doi dang. timeout''
   \<and> error (state_of (handleGarmentSelect stateMobile stateMobile (File ''shirt.png'') shirt))
       = Some ''Khong the doi dang. timeout''
   \<and> outfitHistory (state_of (handleGarmentSelect stateMobile stateMobile (File ''shirt.png'') shirt))
       = [layerA, layerB]
   \<and> wardrobe (state_of (handleGarmentSelect stateMobile stateMobile (File ''shirt.png'') shirt))
       = [shirt]"
proof -
  have 1: "displayImageUrl stateMobile = Some ''data:a''"
    by (simp add: displayImageUrl_def js_simps example_simps)
  have 2: "''data:a'' \<noteq> []" by simp
  have 3: "\<not> isLoading stateMobile" by (simp add: stateMobile_def)
  have 4: "js_index (outfitHistory stateMobile) (currentOutfitIndex stateMobile + 1) = Some layerB"
    by (simp add: js_simps stateMobile_def)
  have 5: "garment layerB = Some shirt" by (simp add: layerB_def)
  have 6: "id' shirt = id' shirt" by simp
  show ?thesis
    using reuse_hit_frame [OF 1 2 3 4 5 6, of stateMobile "File ''shirt.png''"]
    by (simp add: stateMobile_def)
qed

subsection \<open>A failed try-on\<close>

text \<open>
  Claim C10. \<^verbatim>\<open>handleGarmentSelect\<close>, whichever render it belongs to, does not touch the
  wardrobe before its call, and the
  continuation of a rejected call does not touch it either, in whatever state \<open>t\<close> it is
  resumed: a select-garment whose try-on call fails leaves the wardrobe as it was. The
  garment is added only by the continuation of a fulfilled call.
\<close>

theorem failed_try_on_keeps_wardrobe:
  "wardrobe (state_of (handleGarmentSelect render s garmentFile garmentInfo)) = wardrobe s
   \<and> wardrobe (handleGarmentSelect_settled friendly k (Rejected err) t) = wardrobe t
   \<and> wardrobe (run_handleGarmentSelect friendly render s garmentFile garmentInfo
                 (Rejected err))
       = wardrobe s"
proof -
  have a: "wardrobe (state_of (handleGarmentSelect render s garmentFile garmentInfo)) = wardrobe s"
    by (simp add: handleGarmentSelect_def Let_def split: option.splits)
  have b: "wardrobe (handleGarmentSelect_settled friendly k (Rejected err) t) = wardrobe t"
    for k t
    by (cases k) (simp add: finally_idle_def)
  have c: "wardrobe (run_handleGarmentSelect friendly render s garmentFile garmentInfo
                 (Rejected err))
       = wardrobe s"
    using a by (cases "handleGarmentSelect render s garmentFile garmentInfo")
      (simp_all add: run_handleGarmentSelect_def b)
  show ?thesis using a b c by simp
qed

subsection \<open>The root layer\<close>

text \<open>
  Claim C8, the root invariant: in every state the handlers can reach from the initial
  state, a non-empty history has a layer without a garment at index 0. It holds when the
  handlers run one after the other, each the one of the current render
  (\<open>sequential_root_invariant\<close> above). It does not survive \<^verbatim>\<open>handleStartOver\<close> run while
  a try-on call is in flight. \<^verbatim>\<open>handleStartOver\<close> is not guarded by \<open>isLoading\<close>: it
  empties the history and clears the flag, and nothing cancels the suspended handler.
  When the call is then fulfilled, the continuation of \<^verbatim>\<open>handleGarmentSelect\<close> appends
  its layer to the slice of the now empty history: the history becomes the single
  garment layer, at index 0, with the current position 1 and no model image.
\<close>

theorem start_over_in_flight_breaks_root:
  "handleGarmentSelect (handleModelFinalized initialState ''data:a'')
       (handleModelFinalized initialState ''data:a'') (File ''shirt.png'') shirt
     = Awaiting
         ((handleModelFinalized initialState ''data:a'')
            \<lparr>error := None, isLoading := True, loadingMessage := ''Dang them shirt.png...''\<rparr>)
         (GarmentSelectAwait 0 shirt ''data:a'' (File ''shirt.png''))
   \<and> outfitHistory startOverInFlight =
       [\<lparr>garment = Some shirt,
         poseImages = [(''Chup chinh dien, tay chong hong'', ''data:b'')]\<rparr>]
   \<and> currentOutfitIndex startOverInFlight = 1
   \<and> modelImageUrl startOverInFlight = None
   \<and> root_ok startOverInFlight = False"
  by (simp add: startOverInFlight_def handleGarmentSelect_def handleModelFinalized_def
      handleStartOver_def displayImageUrl_def reapplies_def finally_idle_def root_ok_def
      root_none_def js_simps example_simps)

text \<open>
  The same state is reached without a call in flight when the start over falls between
  the click on a wardrobe item and the call of the handler the panel was given at that
  click: its closure still has the image of the abandoned session.
\<close>

lemma stale_garment_select_after_start_over:
  "handleGarmentSelect stateA (handleStartOver stateA) (File ''shirt.png'') shirt =
     Awaiting
       ((handleStartOver stateA)
          \<lparr>isLoading := True, loadingMessage := ''Dang them shirt.png...''\<rparr>)
       (GarmentSelectAwait 0 shirt ''data:a'' (File ''shirt.png''))
   \<and> outfitHistory
        (run_handleGarmentSelect exampleFriendly stateA (handleStartOver stateA)
           (File ''shirt.png'') shirt (Fulfilled ''data:b'')) =
       [\<lparr>garment = Some shirt,
         poseImages = [(''Chup chinh dien, tay chong hong'', ''data:b'')]\<rparr>]"
  by (simp add: run_handleGarmentSelect_def handleGarmentSelect_def handleStartOver_def
      displayImageUrl_def reapplies_def finally_idle_def js_simps example_simps)

end
